theory Spec2Isabelle
  imports Main "HOL-Library.AList"
begin

section \<open>Python values\<close>

text \<open>
  A Python \<open>str\<close> is a sequence of Unicode code points, so it is modelled as a list of
  natural numbers: the full-width comma U+FF0C of \<open>ApiKey.convert_to_env\<close> is one element,
  as it is one character for \<open>str.replace\<close> and \<open>str.split\<close>. \<open>u\<close> embeds an ASCII
  literal. Names of environment variables and of platforms are ASCII literals in the
  source and stay Isabelle strings.
\<close>

type_synonym pystr = "nat list"

definition u :: "string \<Rightarrow> pystr" where
  "u s = map of_char s"

text \<open>
  The fields annotated \<open>Dict\<close> and \<open>List\<close> hold arbitrary JSON-like values (attrs does not
  validate annotations): \<open>None\<close>, booleans, integers, strings, lists and dictionaries.
  A dictionary is an association list in insertion order; its keys are the hashable
  values among these. Floats are left out.
\<close>

datatype pykey = KNone | KBool bool | KInt int | KStr pystr

datatype py = PNone | PBool bool | PInt int | PStr pystr
  | PList "py list" | PDict "(pykey \<times> py) list"

datatype error = AttributeError | ValueError | TypeError | StartupError

subsection \<open>\<open>str(int)\<close>, \<open>str(bool)\<close>\<close>

fun dec_nat :: "nat \<Rightarrow> pystr" where
  "dec_nat n = (if n < 10 then [48 + n] else dec_nat (n div 10) @ [48 + n mod 10])"

declare dec_nat.simps [simp del]

definition str_int :: "int \<Rightarrow> pystr" where
  "str_int i = (if i < 0 then 45 # dec_nat (nat (- i)) else dec_nat (nat i))"

definition str_bool :: "bool \<Rightarrow> pystr" where
  "str_bool b = (if b then u ''True'' else u ''False'')"

subsection \<open>\<open>str.strip\<close>, \<open>str.replace\<close>, \<open>str.split\<close>, \<open>int(str)\<close>\<close>

text \<open>
  \<open>str.strip()\<close> removes the characters for which \<open>str.isspace\<close> holds; \<open>int()\<close> skips
  the ASCII white space 9-13 and 32 and the non-ASCII spaces, but not the separators
  28-31. Non-ASCII decimal digits, which \<open>int()\<close> also reads, are not modelled: a code
  point above 127 that is not a space makes \<open>py_int\<close> fail.
\<close>

definition uni_space :: "nat \<Rightarrow> bool" where
  "uni_space c \<longleftrightarrow> c = 0x85 \<or> c = 0xA0 \<or> c = 0x1680 \<or> (0x2000 \<le> c \<and> c \<le> 0x200A)
     \<or> c = 0x2028 \<or> c = 0x2029 \<or> c = 0x202F \<or> c = 0x205F \<or> c = 0x3000"

definition int_space :: "nat \<Rightarrow> bool" where
  "int_space c \<longleftrightarrow> (9 \<le> c \<and> c \<le> 13) \<or> c = 32 \<or> uni_space c"

definition isspace :: "nat \<Rightarrow> bool" where
  "isspace c \<longleftrightarrow> int_space c \<or> (28 \<le> c \<and> c \<le> 31)"

definition strip_by :: "(nat \<Rightarrow> bool) \<Rightarrow> pystr \<Rightarrow> pystr" where
  "strip_by P s = rev (dropWhile P (rev (dropWhile P s)))"

definition strip :: "pystr \<Rightarrow> pystr" where
  "strip s = strip_by isspace s"

text \<open>\<open>s.replace(old, new)\<close> for one-character \<open>old\<close> and \<open>new\<close>, as the source calls it.\<close>

definition replace1 :: "nat \<Rightarrow> nat \<Rightarrow> pystr \<Rightarrow> pystr" where
  "replace1 old new s = map (\<lambda>c. if c = old then new else c) s"

text \<open>\<open>s.split(sep)\<close> for a one-character separator: always at least one piece.\<close>

fun split :: "nat \<Rightarrow> pystr \<Rightarrow> pystr list" where
  "split sep [] = [ [] ]"
| "split sep (c # cs) =
     (if c = sep then [] # split sep cs
      else (case split sep cs of p # ps \<Rightarrow> (c # p) # ps | [] \<Rightarrow> [ [c] ]))"

definition is_digit :: "nat \<Rightarrow> bool" where
  "is_digit c \<longleftrightarrow> 48 \<le> c \<and> c \<le> 57"

text \<open>
  The digits of a literal, most significant first; a single underscore may stand
  between two digits.
\<close>

fun digits_val :: "nat \<Rightarrow> pystr \<Rightarrow> nat option" where
  "digits_val acc [] = Some acc"
| "digits_val acc (c # cs) =
     (if is_digit c then digits_val (10 * acc + (c - 48)) cs
      else if c = 95 then
        (case cs of d # _ \<Rightarrow> if is_digit d then digits_val acc cs else None | [] \<Rightarrow> None)
      else None)"

definition literal_val :: "pystr \<Rightarrow> nat option" where
  "literal_val s = (case s of c # _ \<Rightarrow> if is_digit c then digits_val 0 s else None | [] \<Rightarrow> None)"

definition py_int :: "pystr \<Rightarrow> error + int" where
  "py_int s =
     (case strip_by int_space s of
        [] \<Rightarrow> Inl ValueError
      | c # cs \<Rightarrow>
          if c = 45 then (case literal_val cs of Some n \<Rightarrow> Inr (- int n) | None \<Rightarrow> Inl ValueError)
          else if c = 43 then (case literal_val cs of Some n \<Rightarrow> Inr (int n) | None \<Rightarrow> Inl ValueError)
          else (case literal_val (c # cs) of Some n \<Rightarrow> Inr (int n) | None \<Rightarrow> Inl ValueError))"

subsection \<open>\<open>json.dumps\<close> with its defaults\<close>

text \<open>
  \<open>ensure_ascii=True\<close>, item separator \<open>", "\<close>, key separator \<open>": "\<close>, keys in
  insertion order; a key that is not a string is written as the string of its JSON
  form.
\<close>

definition hex_digit :: "nat \<Rightarrow> nat" where
  "hex_digit d = (if d < 10 then 48 + d else 87 + d)"

definition hex4 :: "nat \<Rightarrow> pystr" where
  "hex4 n = [hex_digit (n div 4096 mod 16), hex_digit (n div 256 mod 16),
             hex_digit (n div 16 mod 16), hex_digit (n mod 16)]"

definition json_escape :: "nat \<Rightarrow> pystr" where
  "json_escape c =
     (if c = 0x22 then [0x5C, 0x22]
      else if c = 0x5C then [0x5C, 0x5C]
      else if c = 0x08 then [0x5C, 0x62]
      else if c = 0x0C then [0x5C, 0x66]
      else if c = 0x0A then [0x5C, 0x6E]
      else if c = 0x0D then [0x5C, 0x72]
      else if c = 0x09 then [0x5C, 0x74]
      else if 0x20 \<le> c \<and> c \<le> 0x7E then [c]
      else if c < 0x10000 then [0x5C, 0x75] @ hex4 c
      else [0x5C, 0x75] @ hex4 (0xD800 + (c - 0x10000) div 1024)
         @ [0x5C, 0x75] @ hex4 (0xDC00 + (c - 0x10000) mod 1024))"

definition json_str :: "pystr \<Rightarrow> pystr" where
  "json_str s = [0x22] @ concat (map json_escape s) @ [0x22]"

fun join :: "pystr \<Rightarrow> pystr list \<Rightarrow> pystr" where
  "join sep [] = []"
| "join sep [x] = x"
| "join sep (x # y # ys) = x @ sep @ join sep (y # ys)"

fun json_key :: "pykey \<Rightarrow> pystr" where
  "json_key (KStr s) = json_str s"
| "json_key (KInt i) = [0x22] @ str_int i @ [0x22]"
| "json_key (KBool b) = [0x22] @ (if b then u ''true'' else u ''false'') @ [0x22]"
| "json_key KNone = [0x22] @ u ''null'' @ [0x22]"

fun json_dumps :: "py \<Rightarrow> pystr" where
  "json_dumps PNone = u ''null''"
| "json_dumps (PBool b) = (if b then u ''true'' else u ''false'')"
| "json_dumps (PInt i) = str_int i"
| "json_dumps (PStr s) = json_str s"
| "json_dumps (PList xs) = u ''['' @ join (u '', '') (map json_dumps xs) @ u '']''"
| "json_dumps (PDict kvs) =
     u ''{'' @ join (u '', '') (map (\<lambda>kv. json_key (fst kv) @ u '': '' @ json_dumps (snd kv)) kvs)
       @ u ''}''"


subsection \<open>Dictionaries\<close>

text \<open>
  \<open>d[k] = v\<close> keeps the place of a key that is already there and appends a new one;
  \<open>d.update(e)\<close> stores the items of \<open>e\<close> in their order.
\<close>

definition dict_set :: "('k \<times> 'v) list \<Rightarrow> 'k \<Rightarrow> 'v \<Rightarrow> ('k \<times> 'v) list" where
  "dict_set d k v = AList.update k v d"

definition dict_update :: "('k \<times> 'v) list \<Rightarrow> ('k \<times> 'v) list \<Rightarrow> ('k \<times> 'v) list" where
  "dict_update d e = fold (\<lambda>kv d'. dict_set d' (fst kv) (snd kv)) e d"

type_synonym env_dict = "(string \<times> pystr) list"

section \<open>The configuration model (\<open>config/interface.py\<close>)\<close>

text \<open>
  The attrs classes, with the types of their annotations: \<open>str\<close>, \<open>bool\<close>, \<open>int\<close>, and the
  JSON-like values for \<open>Dict\<close> and \<open>List\<close>. A \<open>Literal\<close> annotation is not checked, so
  such a field is a string. Fields of different classes with the same name
  (\<open>backend\<close>, \<open>openai\<close>, \<open>general\<close>, \<open>route\<close>) are told apart by a prefix.
\<close>

record ForwardItem =
  fi_base_url :: pystr
  fi_route :: pystr
  fi_type :: pystr

record CacheConfig =
  cache_backend :: pystr
  cache_root_path_or_url :: pystr
  cache_default_request_caching_value :: bool
  cache_openai :: bool
  cache_general :: bool
  cache_routes :: "py list"

record RateLimitType =
  rlt_route :: pystr
  rlt_value :: "py list"

record RateLimit =
  rl_backend :: pystr
  global_rate_limit :: pystr
  token_rate_limit :: "RateLimitType list"
  req_rate_limit :: "RateLimitType list"
  iter_chunk :: pystr
  strategy :: pystr

record ApiKey =
  openai_key :: "(pykey \<times> py) list"
  forward_key :: "(pykey \<times> py) list"
  level :: "(pykey \<times> py) list"

record Log =
  log_general :: bool
  log_openai :: bool

text \<open>
  The sections of a \<open>Config\<close> object (\<open>api_key\<close>, \<open>cache\<close>, \<open>rate_limit\<close>, \<open>log\<close>) are
  objects of their own, which the methods reach through \<open>self\<close>: the object holds their
  addresses, and the store gives the object at an address. \<open>Config\<close> is what the
  attributes of an object read as, with the sections looked up in the store;
  \<open>convert_to_env\<close>, which only reads, is defined on it.
\<close>

record store =
  ApiKey_at :: "nat \<Rightarrow> ApiKey"
  CacheConfig_at :: "nat \<Rightarrow> CacheConfig"
  RateLimit_at :: "nat \<Rightarrow> RateLimit"
  Log_at :: "nat \<Rightarrow> Log"

record Config_obj =
  obj_forward :: "ForwardItem list"
  obj_api_key :: nat
  obj_cache :: nat
  obj_rate_limit :: nat
  obj_log :: nat
  obj_timezone :: pystr
  obj_timeout :: int
  obj_benchmark_mode :: bool
  obj_proxy :: pystr
  obj_default_stream_response :: bool

record Config =
  forward :: "ForwardItem list"
  api_key :: ApiKey
  cache :: CacheConfig
  rate_limit :: RateLimit
  log :: Log
  timezone :: pystr
  timeout :: int
  benchmark_mode :: bool
  proxy :: pystr
  default_stream_response :: bool

subsection \<open>The defaults of the classes\<close>

text \<open>
  \<open>level_limit l s\<close> is the dictionary \<open>{"level": l, "limit": s}\<close> of the default rules.
  An object of a section class built without arguments has these values.
\<close>

definition level_limit :: "int \<Rightarrow> string \<Rightarrow> py" where
  "level_limit l s = PDict [(KStr (u ''level''), PInt l), (KStr (u ''limit''), PStr (u s))]"

definition forward_default :: "ForwardItem list" where
  "forward_default =
     [\<lparr>fi_base_url = u ''https://api.openai.com'', fi_route = u ''/'', fi_type = u ''openai''\<rparr>,
      \<lparr>fi_base_url = u ''https://generativelanguage.googleapis.com'', fi_route = u ''/gemini'',
       fi_type = u ''general''\<rparr>]"

definition ApiKey_default :: ApiKey where
  "ApiKey_default =
     \<lparr>openai_key = [(KStr (u ''sk-xx1''), PList [PInt 0])],
      forward_key = [(KInt 0, PList [PStr (u ''fk-1'')])],
      level = [(KInt 1, PList [PStr (u ''gpt-3.5-turbo'')])]\<rparr>"

definition CacheConfig_default :: CacheConfig where
  "CacheConfig_default =
     \<lparr>cache_backend = u ''LevelDB'', cache_root_path_or_url = u ''./FLAXKV_DB'',
      cache_default_request_caching_value = True, cache_openai = False, cache_general = False,
      cache_routes = [PStr (u ''/v1/chat/completions'')]\<rparr>"

definition RateLimit_default :: RateLimit where
  "RateLimit_default =
     \<lparr>rl_backend = [], global_rate_limit = u ''inf'',
      token_rate_limit =
        [\<lparr>rlt_route = u ''/v1/chat/completions'', rlt_value = [level_limit 0 ''60/second'']\<rparr>,
         \<lparr>rlt_route = u ''/v1/completions'', rlt_value = [level_limit 0 ''60/second'']\<rparr>],
      req_rate_limit =
        [\<lparr>rlt_route = u ''/v1/chat/completions'', rlt_value = [level_limit 0 ''100/2minutes'']\<rparr>,
         \<lparr>rlt_route = u ''/v1/completions'', rlt_value = [level_limit 0 ''60/minute'']\<rparr>,
         \<lparr>rlt_route = u ''/v1/embeddings'', rlt_value = [level_limit 0 ''100/2minutes'']\<rparr>],
      iter_chunk = u ''one-by-one'', strategy = u ''moving-window''\<rparr>"

definition Log_default :: Log where
  "Log_default = \<lparr>log_general = True, log_openai = True\<rparr>"

text \<open>
  The class statement of \<open>Config\<close> evaluates \<open>ApiKey()\<close>, \<open>CacheConfig()\<close>, \<open>RateLimit()\<close> and
  \<open>Log()\<close> once, and attrs gives every object built by \<open>Config()\<close> these same four
  objects. They are at address 0 of the store; \<open>store_initial\<close> is the store when the
  module has been imported (no other section object exists then, so what the other
  addresses hold is never read), and \<open>Config_init\<close> is the object that \<open>Config()\<close> builds,
  in any store.
\<close>

definition store_initial :: store where
  "store_initial =
     \<lparr>ApiKey_at = (\<lambda>_. ApiKey_default), CacheConfig_at = (\<lambda>_. CacheConfig_default),
      RateLimit_at = (\<lambda>_. RateLimit_default), Log_at = (\<lambda>_. Log_default)\<rparr>"

definition Config_init :: Config_obj where
  "Config_init =
     \<lparr>obj_forward = forward_default, obj_api_key = 0, obj_cache = 0, obj_rate_limit = 0,
      obj_log = 0, obj_timezone = u ''Asia/Shanghai'', obj_timeout = 6,
      obj_benchmark_mode = False, obj_proxy = [], obj_default_stream_response = True\<rparr>"

definition attrs :: "store \<Rightarrow> Config_obj \<Rightarrow> Config" where
  "attrs h self =
     \<lparr>forward = obj_forward self, api_key = ApiKey_at h (obj_api_key self),
      cache = CacheConfig_at h (obj_cache self),
      rate_limit = RateLimit_at h (obj_rate_limit self), log = Log_at h (obj_log self),
      timezone = obj_timezone self, timeout = obj_timeout self,
      benchmark_mode = obj_benchmark_mode self, proxy = obj_proxy self,
      default_stream_response = obj_default_stream_response self\<rparr>"

subsection \<open>Projection: \<open>convert_to_env\<close>\<close>

text \<open>
  Every \<open>convert_to_env(self, set_env)\<close> returns its \<open>env_dict\<close> and, when \<open>set_env\<close> is
  true, has stored it in \<open>os.environ\<close> first; the process environment is passed in and
  returned.
\<close>

definition set_env_update :: "bool \<Rightarrow> env_dict \<Rightarrow> env_dict \<Rightarrow> env_dict" where
  "set_env_update set_env environ env = (if set_env then dict_update environ env else environ)"

text \<open>
  \<open>Base.to_dict\<close> drops the attributes that are \<open>None\<close>; the three attributes of a
  \<open>ForwardItem\<close> are strings here, so all three are kept.
\<close>

definition ForwardItem_to_dict :: "ForwardItem \<Rightarrow> py" where
  "ForwardItem_to_dict i =
     PDict [(KStr (u ''base_url''), PStr (fi_base_url i)),
            (KStr (u ''route''), PStr (fi_route i)),
            (KStr (u ''type''), PStr (fi_type i))]"

definition CacheConfig_convert_to_env ::
  "CacheConfig \<Rightarrow> bool \<Rightarrow> env_dict \<Rightarrow> env_dict \<times> env_dict" where
  "CacheConfig_convert_to_env self set_env environ =
     (let env = [(''CACHE_OPENAI'', str_bool (cache_openai self)),
                 (''CACHE_GENERAL'', str_bool (cache_general self)),
                 (''CACHE_BACKEND'', cache_backend self),
                 (''CACHE_ROOT_PATH_OR_URL'', cache_root_path_or_url self),
                 (''DEFAULT_REQUEST_CACHING_VALUE'',
                    str_bool (cache_default_request_caching_value self)),
                 (''CACHE_ROUTES'', json_dumps (PList (cache_routes self)))]
      in (env, set_env_update set_env environ env))"

text \<open>
  The dictionary comprehension \<open>{i.route: i.value for i in rules if i.route and i.value}\<close>:
  a string and a list are true when they are not empty.
\<close>

definition rate_limit_dict :: "RateLimitType list \<Rightarrow> (pystr \<times> py list) list" where
  "rate_limit_dict rules =
     fold (\<lambda>i d. dict_set d (rlt_route i) (rlt_value i))
       (filter (\<lambda>i. rlt_route i \<noteq> [] \<and> rlt_value i \<noteq> []) rules) []"

definition rate_limit_py :: "(pystr \<times> py list) list \<Rightarrow> py" where
  "rate_limit_py d = PDict (map (\<lambda>kv. (KStr (fst kv), PList (snd kv))) d)"

definition RateLimit_convert_to_env ::
  "RateLimit \<Rightarrow> bool \<Rightarrow> env_dict \<Rightarrow> env_dict \<times> env_dict" where
  "RateLimit_convert_to_env self set_env environ =
     (let env = [(''GLOBAL_RATE_LIMIT'', global_rate_limit self),
                 (''RATE_LIMIT_STRATEGY'', strategy self),
                 (''TOKEN_RATE_LIMIT'',
                    json_dumps (rate_limit_py (rate_limit_dict (token_rate_limit self)))),
                 (''REQ_RATE_LIMIT'',
                    json_dumps (rate_limit_py (rate_limit_dict (req_rate_limit self)))),
                 (''ITER_CHUNK_TYPE'', iter_chunk self)]
      in (env, set_env_update set_env environ env))"

text \<open>
  \<open>[int(i) for i in values]\<close>: the first piece that \<open>int()\<close> rejects raises.
\<close>

fun int_list :: "pystr list \<Rightarrow> error + py list" where
  "int_list [] = Inr []"
| "int_list (p # ps) =
     (case py_int p of
        Inl e \<Rightarrow> Inl e
      | Inr n \<Rightarrow> (case int_list ps of Inl e \<Rightarrow> Inl e | Inr ns \<Rightarrow> Inr (PInt n # ns)))"

text \<open>
  \<open>value.strip().replace('\<dots>', ',').split(',')\<close> and the list of integers: only a string
  has \<open>strip\<close>, any other value raises \<open>AttributeError\<close>.
\<close>

fun levels_of :: "py \<Rightarrow> error + py" where
  "levels_of (PStr s) =
     (case int_list (split 44 (replace1 0xFF0C 44 (strip s))) of
        Inl e \<Rightarrow> Inl e | Inr ns \<Rightarrow> Inr (PList ns))"
| "levels_of _ = Inl AttributeError"

fun openai_key_loop ::
  "(pykey \<times> py) list \<Rightarrow> (pykey \<times> py) list \<Rightarrow> error + (pykey \<times> py) list" where
  "openai_key_loop [] openai_key_dict = Inr openai_key_dict"
| "openai_key_loop ((key, val) # items) openai_key_dict =
     (case levels_of val of
        Inl e \<Rightarrow> Inl e
      | Inr ns \<Rightarrow> openai_key_loop items (dict_set openai_key_dict key ns))"

definition ApiKey_convert_to_env ::
  "ApiKey \<Rightarrow> bool \<Rightarrow> env_dict \<Rightarrow> error + env_dict \<times> env_dict" where
  "ApiKey_convert_to_env self set_env environ =
     (case openai_key_loop (openai_key self) [] of
        Inl e \<Rightarrow> Inl e
      | Inr openai_key_dict \<Rightarrow>
          (let env = [(''OPENAI_API_KEY_CONFIG'', json_dumps (PDict openai_key_dict)),
                      (''FORWARD_KEY_CONFIG'', json_dumps (PDict (forward_key self))),
                      (''LEVEL_MODELS'', json_dumps (PDict (level self)))]
           in Inr (env, set_env_update set_env environ env)))"

definition Log_convert_to_env :: "Log \<Rightarrow> bool \<Rightarrow> env_dict \<Rightarrow> env_dict \<times> env_dict" where
  "Log_convert_to_env self set_env environ =
     (let env = [(''LOG_GENERAL'', str_bool (log_general self)),
                 (''LOG_OPENAI'', str_bool (log_openai self))]
      in (env, set_env_update set_env environ env))"

text \<open>
  \<open>Config.convert_to_env\<close> calls the sections with their default \<open>set_env=False\<close>, which
  leaves \<open>os.environ\<close> alone, and stores the whole mapping itself at the end. It changes
  no object; \<open>self\<close> is what its attributes read as at the call, \<open>attrs h self\<close> for an
  object in a store.
\<close>

definition Config_convert_to_env ::
  "Config \<Rightarrow> bool \<Rightarrow> env_dict \<Rightarrow> error + env_dict \<times> env_dict" where
  "Config_convert_to_env self set_env environ =
     (let env0 = [(''FORWARD_CONFIG'', json_dumps (PList (map ForwardItem_to_dict (forward self))))]
      in case ApiKey_convert_to_env (api_key self) False environ of
           Inl e \<Rightarrow> Inl e
         | Inr (api_env, _) \<Rightarrow>
             (let env1 = dict_update env0 api_env;
                  env2 = dict_update env1 (fst (CacheConfig_convert_to_env (cache self) False environ));
                  env3 = dict_update env2 (fst (RateLimit_convert_to_env (rate_limit self) False environ));
                  env4 = dict_update env3 (fst (Log_convert_to_env (log self) False environ));
                  env5 = dict_set env4 ''TZ'' (timezone self);
                  env6 = dict_set env5 ''TIMEOUT'' (str_int (timeout self));
                  env7 = dict_set env6 ''BENCHMARK_MODE'' (str_bool (benchmark_mode self));
                  env8 = dict_set env7 ''DEFAULT_STREAM_RESPONSE''
                           (str_bool (default_stream_response self));
                  env9 = (if proxy self \<noteq> [] then dict_set env8 ''PROXY'' (proxy self) else env8)
              in Inr (env9, set_env_update set_env environ env9)))"

subsection \<open>Hydration: \<open>Config.come_from_env\<close>\<close>

text \<open>
  \<open>come_from_env\<close> reads the constants of the module \<open>openai_forward.config.settings\<close>,
  which is not among the sources: they are a parameter here, one field for each name the
  method uses. Only the time zone is read from \<open>os.environ\<close> itself.
  \<open>CACHE_ROUTE_SET\<close> is a set; the list is the order in which \<open>list()\<close> goes through it.
\<close>

record Settings =
  TIMEOUT :: int
  BENCHMARK_MODE :: bool
  PROXY :: "pystr option"
  LOG_OPENAI :: bool
  LOG_GENERAL :: bool
  RATE_LIMIT_STRATEGY :: pystr
  GLOBAL_RATE_LIMIT :: pystr
  ITER_CHUNK_TYPE :: pystr
  RATE_LIMIT_BACKEND :: "pystr option"
  req_rate_limit_dict :: "(pystr \<times> py list) list"
  token_rate_limit_conf :: "(pystr \<times> py list) list"
  CACHE_BACKEND :: pystr
  CACHE_ROOT_PATH_OR_URL :: pystr
  DEFAULT_REQUEST_CACHING_VALUE :: bool
  CACHE_OPENAI :: bool
  CACHE_GENERAL :: bool
  CACHE_ROUTE_SET :: "py list"
  LEVEL_MODELS :: "(pykey \<times> py) list"
  OPENAI_API_KEY :: "(pykey \<times> py) list"
  LEVEL_TO_FWD_KEY :: "(pykey \<times> py) list"
  FORWARD_CONFIG :: "(pystr \<times> pystr) list list"

text \<open>
  \<open>ForwardItem(**i)\<close>: \<open>base_url\<close> and \<open>route\<close> are required, \<open>type\<close> defaults to
  \<open>"general"\<close>, any other keyword is a \<open>TypeError\<close>.
\<close>

definition ForwardItem_init :: "(pystr \<times> pystr) list \<Rightarrow> error + ForwardItem" where
  "ForwardItem_init kwargs =
     (if \<not> list_all (\<lambda>k. k = u ''base_url'' \<or> k = u ''route'' \<or> k = u ''type'') (map fst kwargs)
      then Inl TypeError
      else case (map_of kwargs (u ''base_url''), map_of kwargs (u ''route'')) of
             (Some b, Some r) \<Rightarrow>
               Inr \<lparr>fi_base_url = b, fi_route = r,
                    fi_type = (case map_of kwargs (u ''type'') of None \<Rightarrow> u ''general'' | Some t \<Rightarrow> t)\<rparr>
           | _ \<Rightarrow> Inl TypeError)"

fun ForwardItem_list :: "(pystr \<times> pystr) list list \<Rightarrow> error + ForwardItem list" where
  "ForwardItem_list [] = Inr []"
| "ForwardItem_list (i # is) =
     (case ForwardItem_init i of
        Inl e \<Rightarrow> Inl e
      | Inr x \<Rightarrow> (case ForwardItem_list is of Inl e \<Rightarrow> Inl e | Inr xs \<Rightarrow> Inr (x # xs)))"

text \<open>\<open>x or y\<close> on lists and on optional strings.\<close>

definition or_list :: "'a list \<Rightarrow> 'a list \<Rightarrow> 'a list" where
  "or_list x y = (if x \<noteq> [] then x else y)"

definition or_str :: "pystr option \<Rightarrow> pystr \<Rightarrow> pystr" where
  "or_str x y = (case x of None \<Rightarrow> y | Some s \<Rightarrow> if s \<noteq> [] then s else y)"

definition environ_get :: "env_dict \<Rightarrow> string \<Rightarrow> pystr \<Rightarrow> pystr" where
  "environ_get environ k dflt = (case map_of environ k of None \<Rightarrow> dflt | Some v \<Rightarrow> v)"

text \<open>
  \<open>come_from_env\<close> assigns to the attributes of \<open>self\<close> and of the section objects that
  \<open>self\<close> holds, in place, so it returns the object and the store; every other object
  that holds the same sections sees them changed. The forwarding rules are assigned
  last: when \<open>ForwardItem(**i)\<close> raises, the assignments before it have been made.
\<close>

definition Config_come_from_env ::
  "Config_obj \<Rightarrow> Settings \<Rightarrow> env_dict \<Rightarrow> store \<Rightarrow> error option \<times> Config_obj \<times> store" where
  "Config_come_from_env self S environ h =
     (let self1 = self\<lparr>obj_timeout := TIMEOUT S,
                        obj_timezone := environ_get environ ''TZ'' (u ''Asia/Shanghai''),
                        obj_benchmark_mode := BENCHMARK_MODE S,
                        obj_proxy := or_str (PROXY S) []\<rparr>;
          lg = Log_at h (obj_log self);
          lg' = lg\<lparr>log_openai := LOG_OPENAI S, log_general := LOG_GENERAL S\<rparr>;
          rl = RateLimit_at h (obj_rate_limit self);
          rl' = rl\<lparr>strategy := RATE_LIMIT_STRATEGY S,
                   global_rate_limit := GLOBAL_RATE_LIMIT S,
                   iter_chunk := ITER_CHUNK_TYPE S,
                   rl_backend := or_str (RATE_LIMIT_BACKEND S) (rl_backend rl),
                   req_rate_limit :=
                     or_list (map (\<lambda>kv. \<lparr>rlt_route = fst kv, rlt_value = snd kv\<rparr>) (req_rate_limit_dict S))
                       (req_rate_limit rl),
                   token_rate_limit :=
                     or_list (map (\<lambda>kv. \<lparr>rlt_route = fst kv, rlt_value = snd kv\<rparr>) (token_rate_limit_conf S))
                       (token_rate_limit rl)\<rparr>;
          ca = CacheConfig_at h (obj_cache self);
          ca' = ca\<lparr>cache_backend := CACHE_BACKEND S,
                   cache_root_path_or_url := CACHE_ROOT_PATH_OR_URL S,
                   cache_default_request_caching_value := DEFAULT_REQUEST_CACHING_VALUE S,
                   cache_openai := (CACHE_OPENAI S \<or> cache_openai ca),
                   cache_general := (CACHE_GENERAL S \<or> cache_general ca),
                   cache_routes := or_list (CACHE_ROUTE_SET S) (cache_routes ca)\<rparr>;
          ak = ApiKey_at h (obj_api_key self);
          ak' = ak\<lparr>level := or_list (LEVEL_MODELS S) (level ak),
                   openai_key := or_list (OPENAI_API_KEY S) (openai_key ak),
                   forward_key := or_list (LEVEL_TO_FWD_KEY S) (forward_key ak)\<rparr>;
          h' = \<lparr>ApiKey_at = (ApiKey_at h)(obj_api_key self := ak'),
                CacheConfig_at = (CacheConfig_at h)(obj_cache self := ca'),
                RateLimit_at = (RateLimit_at h)(obj_rate_limit self := rl'),
                Log_at = (Log_at h)(obj_log self := lg')\<rparr>
      in case ForwardItem_list (FORWARD_CONFIG S) of
           Inl e \<Rightarrow> (Some e, self1, h')
         | Inr fw \<Rightarrow> (None, self1\<lparr>obj_forward := fw\<rparr>, h'))"

section \<open>The command line (\<open>__main__.py\<close>)\<close>

subsection \<open>Child processes, time and the process environment\<close>

text \<open>
  What \<open>subprocess.Popen\<close>, \<open>platform.system\<close>, \<open>os.environ\<close> and the clock offer to the
  class \<open>Cli\<close>. Time is counted in the units of the timeouts. A process runs until the
  moment \<open>exit_at\<close>, for ever when that is \<open>None\<close>; it is live, \<open>poll()\<close> being \<open>None\<close>, at the
  moments before. A signal does not wait for the process: \<open>reaction\<close> says how a process
  answers an interrupt, after how many time units it exits or \<open>None\<close> when it ignores
  the signal, and \<open>kill_latency\<close> says how long after \<open>SIGKILL\<close> was sent the process is
  gone. \<open>healthy_in\<close> says for a URL after how many time units from now a request to it
  first succeeds, or \<open>None\<close> when it never does.
\<close>

record process =
  argv :: "pystr list"
  exit_at :: "nat option"

record launch =
  l_app :: pystr
  l_host :: pystr
  l_port :: int
  l_workers :: int
  l_app_dir :: pystr
  l_ssl_keyfile :: "pystr option"
  l_ssl_certfile :: "pystr option"
  l_environ :: env_dict

record world =
  platform_system :: string
  os_environ :: env_dict
  now :: nat
  nprocs :: nat
  procs :: "nat \<Rightarrow> process"
  reaction :: "nat \<Rightarrow> nat option"
  kill_latency :: "nat \<Rightarrow> nat"
  healthy_in :: "pystr \<Rightarrow> nat option"
  launches :: "launch list"

definition live :: "world \<Rightarrow> nat \<Rightarrow> bool" where
  "live w p \<longleftrightarrow> (case exit_at (procs w p) of None \<Rightarrow> True | Some e \<Rightarrow> now w < e)"

definition elapse :: "nat \<Rightarrow> world \<Rightarrow> world" where
  "elapse t w = w\<lparr>now := now w + t\<rparr>"

text \<open>A process is made to exit at a moment, unless it exits before.\<close>

definition exits_by :: "nat \<Rightarrow> nat \<Rightarrow> world \<Rightarrow> world" where
  "exits_by p t w =
     w\<lparr>procs := (procs w)(p := (procs w p)\<lparr>exit_at :=
          Some (case exit_at (procs w p) of None \<Rightarrow> t | Some e \<Rightarrow> min e t)\<rparr>)\<rparr>"

text \<open>\<open>Popen(argv)\<close>: a new live process; the handle is its number.\<close>

definition Popen :: "pystr list \<Rightarrow> world \<Rightarrow> nat \<times> world" where
  "Popen args w =
     (nprocs w,
      w\<lparr>nprocs := Suc (nprocs w),
        procs := (procs w)(nprocs w := \<lparr>argv = args, exit_at = None\<rparr>)\<rparr>)"

text \<open>
  \<open>send_signal(signal.SIGINT)\<close>: nothing for a process that has exited. On Windows
  \<open>Popen.send_signal\<close> knows \<open>SIGTERM\<close>, \<open>CTRL_C_EVENT\<close> and \<open>CTRL_BREAK_EVENT\<close> only and
  raises \<open>ValueError\<close> for any other signal.
\<close>

definition send_sigint :: "nat \<Rightarrow> world \<Rightarrow> error + world" where
  "send_sigint p w =
     (if \<not> live w p then Inr w
      else if platform_system w = ''Windows'' then Inl ValueError
      else case reaction w p of
             None \<Rightarrow> Inr w
           | Some d \<Rightarrow> Inr (exits_by p (now w + d) w))"

text \<open>
  \<open>wait(timeout=t)\<close>: returns at the moment the process exits; \<open>False\<close> stands for
  \<open>TimeoutExpired\<close> after \<open>t\<close> time units.
\<close>

definition wait :: "nat \<Rightarrow> nat \<Rightarrow> world \<Rightarrow> bool \<times> world" where
  "wait p t w =
     (case exit_at (procs w p) of
        None \<Rightarrow> (False, elapse t w)
      | Some e \<Rightarrow> if e \<le> now w + t then (True, elapse (e - now w) w) else (False, elapse t w))"

text \<open>
  \<open>kill()\<close> sends \<open>SIGKILL\<close> and returns at once; nothing for a process that has exited.
  The process may still be live when \<open>kill\<close> has returned.
\<close>

definition kill :: "nat \<Rightarrow> world \<Rightarrow> world" where
  "kill p w = (if \<not> live w p then w else exits_by p (now w + kill_latency w p) w)"

subsection \<open>The class \<open>Cli\<close>\<close>

text \<open>
  The two handles are attributes that exist only once a process was started: \<open>None\<close> is
  the missing attribute, and reading it raises \<open>AttributeError\<close>. A method returns the
  exception it raised, if any, together with the object and the world as they are then.
\<close>

record Cli =
  uvicorn_proc :: "nat option"
  streamlit_proc :: "nat option"

definition Cli_run :: "int \<Rightarrow> int \<Rightarrow> bool \<Rightarrow> int \<Rightarrow> world \<Rightarrow> world" where
  "Cli_run port workers start_ui ui_port w =
     (let w1 = (if platform_system w = ''Windows''
                then w\<lparr>os_environ := dict_set (os_environ w) ''TZ'' []\<rparr> else w);
          ssl_keyfile = (case map_of (os_environ w1) ''ssl_keyfile'' of
                           None \<Rightarrow> None | Some s \<Rightarrow> if s \<noteq> [] then Some s else None);
          ssl_certfile = (case map_of (os_environ w1) ''ssl_certfile'' of
                            None \<Rightarrow> None | Some s \<Rightarrow> if s \<noteq> [] then Some s else None)
      in w1\<lparr>launches := launches w1 @
              [\<lparr>l_app = u ''openai_forward.app:app'', l_host = u ''0.0.0.0'', l_port = port,
                l_workers = workers, l_app_dir = u ''..'', l_ssl_keyfile = ssl_keyfile,
                l_ssl_certfile = ssl_certfile, l_environ = os_environ w1\<rparr>]\<rparr>)"

text \<open>
  Modelled from the spec: \<open>openai_forward.helper.wait_for_serve_start\<close> is not among the
  sources. Section 4.3 of the specification: it polls the liveness endpoint with a
  bounded timeout; when the endpoint has not answered by then, the failure is a fatal
  startup error, unless failures are suppressed, in which case they count as success.
\<close>

definition wait_for_serve_start :: "pystr \<Rightarrow> nat \<Rightarrow> bool \<Rightarrow> world \<Rightarrow> error option \<times> world" where
  "wait_for_serve_start url timeout' suppress_exception w =
     (case healthy_in w url of
        Some d \<Rightarrow>
          if d \<le> timeout' then (None, elapse d w)
          else (if suppress_exception then None else Some StartupError, elapse timeout' w)
      | None \<Rightarrow> (if suppress_exception then None else Some StartupError, elapse timeout' w))"

definition healthz_url :: "int \<Rightarrow> pystr" where
  "healthz_url port = u ''http://localhost:'' @ str_int port @ u ''/healthz''"

definition uvicorn_argv :: "int \<Rightarrow> int \<Rightarrow> pystr option \<Rightarrow> pystr option \<Rightarrow> pystr list" where
  "uvicorn_argv port workers ssl_keyfile ssl_certfile =
     [u ''uvicorn'', u ''openai_forward.app:app'', u ''--host'', u ''0.0.0.0'',
      u ''--port'', str_int port, u ''--app-dir'', u ''..'', u ''--workers'', str_int workers]
     @ (case ssl_keyfile of Some f \<Rightarrow> if f \<noteq> [] then [u ''--ssl-keyfile'', f] else [] | None \<Rightarrow> [])
     @ (case ssl_certfile of Some f \<Rightarrow> if f \<noteq> [] then [u ''--ssl-certfile'', f] else [] | None \<Rightarrow> [])"

definition Cli_start_uvicorn ::
  "Cli \<Rightarrow> int \<Rightarrow> int \<Rightarrow> pystr option \<Rightarrow> pystr option \<Rightarrow> world \<Rightarrow> error option \<times> Cli \<times> world" where
  "Cli_start_uvicorn self port workers ssl_keyfile ssl_certfile w =
     (let (p, w1) = Popen (uvicorn_argv port workers ssl_keyfile ssl_certfile) w;
          self1 = self\<lparr>uvicorn_proc := Some p\<rparr>;
          suppress_exception = (platform_system w1 = ''Windows'');
          (e, w2) = wait_for_serve_start (healthz_url port) 10 suppress_exception w1
      in (e, self1, w2))"

text \<open>
  One branch of \<open>_stop\<close>: the interrupt, the bounded wait, and \<open>kill\<close> when the wait
  timed out. An exception of \<open>send_signal\<close> ends \<open>_stop\<close>.
\<close>

definition interrupt_wait_kill :: "nat \<Rightarrow> nat \<Rightarrow> world \<Rightarrow> error option \<times> world" where
  "interrupt_wait_kill p grace w =
     (case send_sigint p w of
        Inl e \<Rightarrow> (Some e, w)
      | Inr w1 \<Rightarrow> (let (done, w2) = wait p grace w1 in (None, if done then w2 else kill p w2)))"

definition Cli_stop :: "Cli \<Rightarrow> bool \<Rightarrow> bool \<Rightarrow> world \<Rightarrow> error option \<times> world" where
  "Cli_stop self uvicorn streamlit w =
     (case (if uvicorn then
              (case uvicorn_proc self of
                 None \<Rightarrow> (Some AttributeError, w)
               | Some p \<Rightarrow> if live w p then interrupt_wait_kill p 15 w else (None, w))
            else (None, w)) of
        (Some e, w1) \<Rightarrow> (Some e, w1)
      | (None, w1) \<Rightarrow>
          (if streamlit then
             (case streamlit_proc self of
                None \<Rightarrow> (Some AttributeError, w1)
              | Some p \<Rightarrow> if live w1 p then interrupt_wait_kill p 5 w1 else (None, w1))
           else (None, w1)))"

definition Cli_stop_streamlit :: "Cli \<Rightarrow> world \<Rightarrow> error option \<times> world" where
  "Cli_stop_streamlit self w = Cli_stop self False True w"



subsection \<open>\<open>Cli.convert\<close> and \<open>Cli.gen_config\<close>\<close>

text \<open>
  What \<open>convert\<close> does to the outside is a sequence of events: a line printed, or a
  call of \<open>convert_folder_to_jsonl\<close>, which is where files are read and written. The
  constant \<open>OPENAI_ROUTE_PREFIX\<close> of the settings module and the helper
  \<open>route_prefix_to_str\<close> are not among the sources and are parameters.
\<close>

datatype event = Print pystr | ConvertFolder pystr "pystr option"

definition fmt_opt :: "pystr option \<Rightarrow> pystr" where
  "fmt_opt x = (case x of None \<Rightarrow> u ''None'' | Some s \<Rightarrow> s)"

definition dashes :: pystr where
  "dashes = replicate 60 45"

definition convert_prefix :: "pystr \<Rightarrow> event list" where
  "convert_prefix prefix =
     (let log_folder = u ''./Log/'' @ prefix @ u ''/chat'';
          target_path = u ''./Log/chat_'' @ prefix @ u ''.json''
      in [Print (u ''Convert '' @ log_folder @ u ''/*.log to '' @ target_path),
          ConvertFolder log_folder (Some target_path),
          Print dashes])"

definition Cli_convert ::
  "pystr list \<Rightarrow> (pystr \<Rightarrow> pystr) \<Rightarrow> pystr option \<Rightarrow> pystr option \<Rightarrow> error option \<times> event list" where
  "Cli_convert OPENAI_ROUTE_PREFIX route_prefix_to_str log_folder target_path =
     (case log_folder of
        None \<Rightarrow>
          if target_path \<noteq> None then (Some ValueError, [Print dashes])
          else (None, Print dashes #
                  concat (map convert_prefix (map route_prefix_to_str OPENAI_ROUTE_PREFIX)))
      | Some folder \<Rightarrow>
          (None, [Print dashes,
                  Print (u ''Convert '' @ folder @ u ''/*.log to '' @ fmt_opt target_path),
                  ConvertFolder folder target_path,
                  Print dashes]))"

text \<open>
  \<open>gen_config\<close> builds \<open>Config()\<close>, projects it and writes the lines \<open>key=value\<close> to the
  file \<open>.env\<close> of the directory: the result is the file written. The sections of the
  object are the shared ones, as the store has them at the call.
\<close>

definition Cli_gen_config :: "pystr \<Rightarrow> store \<Rightarrow> env_dict \<Rightarrow> error + (pystr \<times> pystr \<times> pystr)" where
  "Cli_gen_config dir h environ =
     (case Config_convert_to_env (attrs h Config_init) False environ of
        Inl e \<Rightarrow> Inl e
      | Inr (env_dict, _) \<Rightarrow>
          Inr (dir, u ''.env'',
               join [10] (map (\<lambda>kv. u (fst kv) @ [61] @ snd kv) env_dict)))"

section \<open>Definitions for the statements and their proofs\<close>

subsection \<open>Delimiter-separated level strings\<close>

text \<open>
  A string of levels as a provider key may hold it: spaces, the first level, and after
  it any number of further levels, each as (spaces before the delimiter, the delimiter,
  spaces after it, the level), and spaces at the end. The delimiter is the comma 44 or
  the full-width comma U+FF0C. \<open>levels\<close> is the sequence of integers written.
\<close>

type_synonym more_level = "nat \<times> nat \<times> nat \<times> int"

definition more_text :: "more_level \<Rightarrow> pystr" where
  "more_text m = (case m of (b, s, a, n) \<Rightarrow> replicate b 32 @ s # replicate a 32 @ str_int n)"

definition inner_text :: "int \<Rightarrow> more_level list \<Rightarrow> pystr" where
  "inner_text n ms = str_int n @ concat (map more_text ms)"

definition levels_text :: "nat \<Rightarrow> int \<Rightarrow> more_level list \<Rightarrow> nat \<Rightarrow> pystr" where
  "levels_text a n ms b = replicate a 32 @ inner_text n ms @ replicate b 32"

definition levels :: "int \<Rightarrow> more_level list \<Rightarrow> int list" where
  "levels n ms = n # map (\<lambda>m. snd (snd (snd m))) ms"

definition delimiters_ok :: "more_level list \<Rightarrow> bool" where
  "delimiters_ok ms \<longleftrightarrow> list_all (\<lambda>m. fst (snd m) = 44 \<or> fst (snd m) = 0xFF0C) ms"

text \<open>The characters of a written integer; a level string with ASCII commas only; the
  pieces that \<open>split\<close> cuts it into.\<close>

definition int_char :: "nat \<Rightarrow> bool" where
  "int_char c \<longleftrightarrow> is_digit c \<or> c = 45"

definition ascii_delim :: "more_level \<Rightarrow> more_level" where
  "ascii_delim m = (case m of (b, s, a, n) \<Rightarrow> (b, 44, a, n))"

fun pieces :: "pystr \<Rightarrow> more_level list \<Rightarrow> pystr list" where
  "pieces cur [] = [cur]"
| "pieces cur ((b, s, a, n) # ms) = (cur @ replicate b 32) # pieces (replicate a 32 @ str_int n) ms"

text \<open>
  An entry of \<open>provider_keys\<close> whose value is such a string: the key and the parts of the
  string; the entry as the model holds it, and the entry with its levels parsed.
\<close>

type_synonym level_entry = "pykey \<times> nat \<times> int \<times> more_level list \<times> nat"

definition entry_item :: "level_entry \<Rightarrow> pykey \<times> py" where
  "entry_item x = (case x of (k, a, n, ms, b) \<Rightarrow> (k, PStr (levels_text a n ms b)))"

definition entry_parsed :: "level_entry \<Rightarrow> pykey \<times> py" where
  "entry_parsed x = (case x of (k, a, n, ms, b) \<Rightarrow> (k, PList (map PInt (levels n ms))))"

definition entry_ok :: "level_entry \<Rightarrow> bool" where
  "entry_ok x = (case x of (k, a, n, ms, b) \<Rightarrow> delimiters_ok ms)"

subsection \<open>The documented environment keys\<close>

text \<open>
  The enumeration of section 6 of the specification, in its order, under the names the
  projection gives them: forwarding rules; provider-key, forward-key and level-to-models
  mappings; the two cache flags, cache backend, storage location, default-caching flag
  and cached routes; global rate limit, strategy, token and request rate-limit mappings
  and chunk-iteration mode; the two logging flags; time zone, timeout, benchmark mode
  and default stream response. The proxy key is the conditional one.
\<close>

definition documented_keys :: "string list" where
  "documented_keys =
     [''FORWARD_CONFIG'', ''OPENAI_API_KEY_CONFIG'', ''FORWARD_KEY_CONFIG'', ''LEVEL_MODELS'',
      ''CACHE_OPENAI'', ''CACHE_GENERAL'', ''CACHE_BACKEND'', ''CACHE_ROOT_PATH_OR_URL'',
      ''DEFAULT_REQUEST_CACHING_VALUE'', ''CACHE_ROUTES'', ''GLOBAL_RATE_LIMIT'',
      ''RATE_LIMIT_STRATEGY'', ''TOKEN_RATE_LIMIT'', ''REQ_RATE_LIMIT'', ''ITER_CHUNK_TYPE'',
      ''LOG_GENERAL'', ''LOG_OPENAI'', ''TZ'', ''TIMEOUT'', ''BENCHMARK_MODE'',
      ''DEFAULT_STREAM_RESPONSE'']"

text \<open>
  The mapping that \<open>Config.convert_to_env\<close> returns, written out, for a configuration and
  the dictionary of parsed provider keys.
\<close>

definition env_list :: "Config \<Rightarrow> (pykey \<times> py) list \<Rightarrow> env_dict" where
  "env_list c d =
     [(''FORWARD_CONFIG'', json_dumps (PList (map ForwardItem_to_dict (forward c)))),
      (''OPENAI_API_KEY_CONFIG'', json_dumps (PDict d)),
      (''FORWARD_KEY_CONFIG'', json_dumps (PDict (forward_key (api_key c)))),
      (''LEVEL_MODELS'', json_dumps (PDict (level (api_key c)))),
      (''CACHE_OPENAI'', str_bool (cache_openai (cache c))),
      (''CACHE_GENERAL'', str_bool (cache_general (cache c))),
      (''CACHE_BACKEND'', cache_backend (cache c)),
      (''CACHE_ROOT_PATH_OR_URL'', cache_root_path_or_url (cache c)),
      (''DEFAULT_REQUEST_CACHING_VALUE'', str_bool (cache_default_request_caching_value (cache c))),
      (''CACHE_ROUTES'', json_dumps (PList (cache_routes (cache c)))),
      (''GLOBAL_RATE_LIMIT'', global_rate_limit (rate_limit c)),
      (''RATE_LIMIT_STRATEGY'', strategy (rate_limit c)),
      (''TOKEN_RATE_LIMIT'',
         json_dumps (rate_limit_py (rate_limit_dict (token_rate_limit (rate_limit c))))),
      (''REQ_RATE_LIMIT'',
         json_dumps (rate_limit_py (rate_limit_dict (req_rate_limit (rate_limit c))))),
      (''ITER_CHUNK_TYPE'', iter_chunk (rate_limit c)),
      (''LOG_GENERAL'', str_bool (log_general (log c))),
      (''LOG_OPENAI'', str_bool (log_openai (log c))),
      (''TZ'', timezone c),
      (''TIMEOUT'', str_int (timeout c)),
      (''BENCHMARK_MODE'', str_bool (benchmark_mode c)),
      (''DEFAULT_STREAM_RESPONSE'', str_bool (default_stream_response c))]
     @ (if proxy c \<noteq> [] then [(''PROXY'', proxy c)] else [])"

subsection \<open>Configurations used as examples\<close>

text \<open>
  The default configuration with one provider key given as a string: the entry of the
  specification's example, \<open>"sk-a"\<close> with the levels \<open>"1, 2\<dots>3"\<close> (an ASCII comma and a
  full-width one), and the default's own key with its level as a string.
\<close>

definition sk_a_entry :: level_entry where
  "sk_a_entry = (KStr (u ''sk-a''), 0, 1, [(0, 44, 1, 2), (0, 0xFF0C, 0, 3)], 0)"


definition Config_str_key :: Config where
  "Config_str_key =
     (attrs store_initial Config_init)\<lparr>api_key := ApiKey_default\<lparr>openai_key := [(KStr (u ''sk-xx1''), PStr (u ''0''))]\<rparr>\<rparr>"

text \<open>
  The default configuration with a provider key whose level string is not numeric, and a
  configuration none of whose attributes has its default value; its provider key is the
  one of the specification's example.
\<close>

definition Config_bad_level :: Config where
  "Config_bad_level =
     (attrs store_initial Config_init)\<lparr>api_key :=
        ApiKey_default\<lparr>openai_key := [(KStr (u ''sk-a''), PStr (u ''abc''))]\<rparr>\<rparr>"

definition Config_custom :: Config where
  "Config_custom =
     \<lparr>forward = [\<lparr>fi_base_url = u ''https://api.example.com'', fi_route = u ''/ex'',
                  fi_type = u ''general''\<rparr>],
      api_key = \<lparr>openai_key = [entry_item sk_a_entry],
                 forward_key = [(KStr (u ''1''), PList [PStr (u ''fk-a'')])],
                 level = [(KStr (u ''2''), PList [PStr (u ''gpt-4'')])]\<rparr>,
      cache = \<lparr>cache_backend = u ''MEMORY'', cache_root_path_or_url = u ''./CACHE'',
               cache_default_request_caching_value = False, cache_openai = True,
               cache_general = True, cache_routes = [PStr (u ''/v1/embeddings'')]\<rparr>,
      rate_limit = \<lparr>rl_backend = u ''memory'', global_rate_limit = u ''100/minute'',
                    token_rate_limit = [\<lparr>rlt_route = u ''/a'', rlt_value = [level_limit 0 ''1/second'']\<rparr>],
                    req_rate_limit = [\<lparr>rlt_route = u ''/b'', rlt_value = [level_limit 1 ''2/second'']\<rparr>],
                    iter_chunk = u ''efficiency'', strategy = u ''fixed-window''\<rparr>,
      log = \<lparr>log_general = False, log_openai = False\<rparr>,
      timezone = u ''UTC'', timeout = 30, benchmark_mode = True,
      proxy = u ''http://127.0.0.1:7890'', default_stream_response = False\<rparr>"

subsection \<open>Rate-limit rules\<close>

text \<open>
  A rule is kept by the projection when its route and its limits are not empty.
  \<open>last_kept rules k\<close> is the limits of the last kept rule with route \<open>k\<close>.
\<close>

definition kept :: "RateLimitType \<Rightarrow> bool" where
  "kept r \<longleftrightarrow> rlt_route r \<noteq> [] \<and> rlt_value r \<noteq> []"

fun last_kept :: "RateLimitType list \<Rightarrow> pystr \<Rightarrow> py list option" where
  "last_kept [] k = None"
| "last_kept (r # rs) k =
     (case last_kept rs k of
        Some v \<Rightarrow> Some v
      | None \<Rightarrow> if kept r \<and> rlt_route r = k then Some (rlt_value r) else None)"

text \<open>Two rules for the same route, and a list with an empty route and empty limits.\<close>

definition rules_same_route :: "RateLimitType list" where
  "rules_same_route =
     [\<lparr>rlt_route = u ''/a'', rlt_value = [level_limit 0 ''1/second'']\<rparr>,
      \<lparr>rlt_route = u ''/a'', rlt_value = [level_limit 0 ''2/second'']\<rparr>]"

definition rules_some_empty :: "RateLimitType list" where
  "rules_some_empty =
     [\<lparr>rlt_route = [], rlt_value = [level_limit 0 ''1/second'']\<rparr>,
      \<lparr>rlt_route = u ''/a'', rlt_value = []\<rparr>,
      \<lparr>rlt_route = u ''/b'', rlt_value = [level_limit 0 ''2/second'']\<rparr>]"

subsection \<open>The supervisor\<close>

text \<open>
  Modelled from the spec: the states of section 4.3. The source keeps no state
  variable; a start that returns leaves the supervisor \<open>Running\<close>, a start that raises
  leaves it \<open>Failed\<close>.
\<close>

datatype supervisor_state = Stopped | Starting | Running | Stopping | Failed

definition state_after_start :: "error option \<Rightarrow> supervisor_state" where
  "state_after_start e = (case e of None \<Rightarrow> Running | Some _ \<Rightarrow> Failed)"

text \<open>
  A world without child processes, for a platform and a process environment; the
  endpoint never answers, and a process started in it ignores the interrupt and is gone
  one time unit after \<open>SIGKILL\<close> was sent.
\<close>

definition world0 :: "string \<Rightarrow> env_dict \<Rightarrow> world" where
  "world0 platform env =
     \<lparr>platform_system = platform, os_environ = env, now = 0, nprocs = 0,
      procs = (\<lambda>_. \<lparr>argv = [], exit_at = Some 0\<rparr>),
      reaction = (\<lambda>_. None), kill_latency = (\<lambda>_. 1), healthy_in = (\<lambda>_. None), launches = []\<rparr>"



text \<open>The calls of \<open>convert_folder_to_jsonl\<close> among the events.\<close>

fun folder_calls :: "event list \<Rightarrow> (pystr \<times> pystr option) list" where
  "folder_calls [] = []"
| "folder_calls (Print s # es) = folder_calls es"
| "folder_calls (ConvertFolder f t # es) = (f, t) # folder_calls es"

text \<open>
  A forwarder running on port 8000 as process 0 on a given platform, as
  \<open>_start_uvicorn\<close> leaves it, and the object that holds its handle. The forwarder
  ignores the interrupt. In \<open>world_graceful\<close> it exits 3 time units after the interrupt;
  in \<open>world_stubborn\<close> it is gone only 3 time units after \<open>SIGKILL\<close>, and the endpoint
  of a forwarder answers after 1 time unit.
\<close>

definition world_running :: "string \<Rightarrow> world" where
  "world_running platform =
     (world0 platform [])\<lparr>nprocs := 1,
        procs := (\<lambda>p. if p = 0
                       then \<lparr>argv = uvicorn_argv 8000 1 None None, exit_at = None\<rparr>
                       else \<lparr>argv = [], exit_at = Some 0\<rparr>)\<rparr>"

definition world_graceful :: world where
  "world_graceful = (world_running ''Linux'')\<lparr>reaction := (\<lambda>_. Some 3)\<rparr>"


definition cli_running :: Cli where
  "cli_running = \<lparr>uvicorn_proc = Some 0, streamlit_proc = None\<rparr>"

text \<open>
  An object that was given a handle for a dashboard too (no method of the class
  assigns one): process 0 is the forwarder, which would exit 20 time units after the
  interrupt, and process 1 the dashboard, which exits 2 time units after it.
\<close>

definition world_two :: world where
  "world_two =
     (world0 ''Linux'' [])\<lparr>nprocs := 2,
        procs := (\<lambda>p. \<lparr>argv = [], exit_at = (if p < 2 then None else Some 0)\<rparr>),
        reaction := (\<lambda>p. if p = 0 then Some 20 else Some 2)\<rparr>"

definition cli_two :: Cli where
  "cli_two = \<lparr>uvicorn_proc = Some 0, streamlit_proc = Some 1\<rparr>"

subsection \<open>The course of a stop\<close>

text \<open>
  The turn of a handle in \<open>_stop\<close>, for a process \<open>p\<close> that is live when the turn begins, at
  the moment \<open>now w\<close>, and a grace period \<open>g\<close>. \<open>due_after_interrupt\<close> is the moment at which
  the process exits when it is interrupted then and not killed: the earlier of the exit
  it was heading for and of its reaction to the interrupt, if any. The turn ends at
  \<open>turn_end\<close>: when the process exits or when the grace period is over, whichever is
  first. \<open>killed\<close> says that the process has not exited by then, so that \<open>kill\<close> is called.
  \<open>turn_exit\<close> is the moment at which the process exits: the one it was due at, or, when
  it was killed, \<open>kill_latency\<close> after the grace period if that is earlier. \<open>turn\<close> is the
  world after the turn; nothing happens when the handle is not targeted or the process
  has exited.
\<close>

definition earliest :: "nat option \<Rightarrow> nat option \<Rightarrow> nat option" where
  "earliest a b =
     (case a of None \<Rightarrow> b | Some x \<Rightarrow> (case b of None \<Rightarrow> Some x | Some y \<Rightarrow> Some (min x y)))"

definition due_after_interrupt :: "world \<Rightarrow> nat \<Rightarrow> nat option" where
  "due_after_interrupt w p =
     earliest (exit_at (procs w p)) (map_option (\<lambda>d. now w + d) (reaction w p))"

definition turn_end :: "world \<Rightarrow> nat \<Rightarrow> nat \<Rightarrow> nat" where
  "turn_end w p g = (case due_after_interrupt w p of None \<Rightarrow> now w + g | Some x \<Rightarrow> min x (now w + g))"

definition killed :: "world \<Rightarrow> nat \<Rightarrow> nat \<Rightarrow> bool" where
  "killed w p g \<longleftrightarrow> (case due_after_interrupt w p of None \<Rightarrow> True | Some x \<Rightarrow> now w + g < x)"

definition turn_exit :: "world \<Rightarrow> nat \<Rightarrow> nat \<Rightarrow> nat" where
  "turn_exit w p g =
     (case due_after_interrupt w p of
        None \<Rightarrow> now w + g + kill_latency w p
      | Some x \<Rightarrow> if x \<le> now w + g then x else min x (now w + g + kill_latency w p))"

definition turn :: "bool \<Rightarrow> nat \<Rightarrow> nat \<Rightarrow> world \<Rightarrow> world" where
  "turn flag p g w =
     (if flag \<and> live w p
      then w\<lparr>now := turn_end w p g,
             procs := (procs w)(p := (procs w p)\<lparr>exit_at := Some (turn_exit w p g)\<rparr>)\<rparr>
      else w)"



section \<open>Lemmas\<close>

subsection \<open>Writing and reading integers\<close>

lemma dec_nat_digits: "list_all is_digit (dec_nat n)"
proof (induction n rule: dec_nat.induct)
  case (1 n)
  show ?case
  proof (cases "n < 10")
    case True
    then show ?thesis by (subst dec_nat.simps) (simp add: is_digit_def)
  next
    case False
    then have "is_digit (48 + n mod 10)" by (simp add: is_digit_def)
    then show ?thesis using False "1.IH" by (subst dec_nat.simps) simp
  qed
qed

lemma dec_nat_nonempty: "dec_nat n \<noteq> []"
  by (subst dec_nat.simps) auto

lemma digits_val_append:
  "list_all is_digit ds \<Longrightarrow> digits_val acc (ds @ r) = digits_val (foldl (\<lambda>a c. 10 * a + (c - 48)) acc ds) r"
  by (induction ds arbitrary: acc) auto

lemma foldl_dec_nat:
  "foldl (\<lambda>a c. 10 * a + (c - 48)) acc (dec_nat n) = acc * 10 ^ length (dec_nat n) + n"
proof (induction n arbitrary: acc rule: dec_nat.induct)
  case (1 n)
  show ?case
  proof (cases "n < 10")
    case True
    then show ?thesis by (subst (1 2) dec_nat.simps) simp
  next
    case False
    have "foldl (\<lambda>a c. 10 * a + (c - 48)) acc (dec_nat n)
        = 10 * (acc * 10 ^ length (dec_nat (n div 10)) + n div 10) + n mod 10"
      using False by (subst dec_nat.simps) (simp add: "1.IH")
    also have "\<dots> = acc * 10 ^ length (dec_nat n) + n"
      using False by (subst (2) dec_nat.simps) (simp add: algebra_simps)
    finally show ?thesis .
  qed
qed

lemma literal_val_dec_nat: "literal_val (dec_nat n) = Some n"
proof -
  have d: "list_all is_digit (dec_nat n)" by (rule dec_nat_digits)
  obtain c cs where cs: "dec_nat n = c # cs" using dec_nat_nonempty by (cases "dec_nat n") auto
  have "digits_val 0 (dec_nat n @ []) = Some n"
    using digits_val_append[OF d, of 0 "[]"] by (simp add: foldl_dec_nat)
  then show ?thesis using cs d by (simp add: literal_val_def)
qed

lemma dec_nat_hd: "is_digit (hd (dec_nat n))"
  using dec_nat_digits[of n] dec_nat_nonempty[of n] by (cases "dec_nat n") auto

lemma dec_nat_last: "is_digit (last (dec_nat n))"
  using dec_nat_digits[of n] dec_nat_nonempty[of n]
  by (metis last_in_set list_all_iff)

lemma str_int_chars: "list_all int_char (str_int n)"
  using dec_nat_digits[of "nat n"] dec_nat_digits[of "nat (- n)"]
  by (auto simp: str_int_def int_char_def list_all_iff)

lemma str_int_nonempty: "str_int n \<noteq> []"
  by (simp add: str_int_def dec_nat_nonempty)

lemma str_int_hd: "int_char (hd (str_int n))"
  using str_int_chars[of n] str_int_nonempty[of n] by (cases "str_int n") auto

lemma str_int_last: "int_char (last (str_int n))"
  using str_int_chars[of n] str_int_nonempty[of n]
  by (metis last_in_set list_all_iff)

lemma int_char_not_space: "int_char c \<Longrightarrow> \<not> isspace c" "int_char c \<Longrightarrow> \<not> int_space c"
  by (auto simp: int_char_def is_digit_def isspace_def int_space_def uni_space_def)

lemma int_char_not_delim: "int_char c \<Longrightarrow> c \<noteq> 44" "int_char c \<Longrightarrow> c \<noteq> 0xFF0C"
  by (auto simp: int_char_def is_digit_def)

lemma strip_by_core:
  assumes "list_all P xs" "list_all P ys" "core \<noteq> []" "\<not> P (hd core)" "\<not> P (last core)"
  shows "strip_by P (xs @ core @ ys) = core"
proof -
  have 1: "dropWhile P (xs @ core @ ys) = core @ ys"
    using assms by (cases core) (auto simp: dropWhile_append list_all_iff)
  have 2: "dropWhile P (rev ys @ rev core) = rev core"
    using assms by (cases "rev core") (auto simp: dropWhile_append list_all_iff last_rev hd_rev)
  show ?thesis by (simp add: strip_by_def 1 2)
qed

lemma literal_str_int: "py_int (str_int n) = Inr n"
proof -
  have s: "strip_by int_space (str_int n) = str_int n"
    using strip_by_core[of int_space "[]" "[]" "str_int n"]
      str_int_nonempty str_int_hd[of n] str_int_last[of n] int_char_not_space by auto
  show ?thesis
  proof (cases "n < 0")
    case True
    then show ?thesis by (simp add: py_int_def s) (simp add: str_int_def literal_val_dec_nat)
  next
    case False
    obtain c cs where cs: "dec_nat (nat n) = c # cs" using dec_nat_nonempty by (cases "dec_nat (nat n)") auto
    have "is_digit c" using dec_nat_hd[of "nat n"] cs by simp
    then have "c \<noteq> 45" "c \<noteq> 43" by (auto simp: is_digit_def)
    moreover have "literal_val (c # cs) = Some (nat n)" using literal_val_dec_nat[of "nat n"] cs by simp
    ultimately show ?thesis using False by (simp add: py_int_def s) (simp add: str_int_def cs)
  qed
qed

lemma py_int_padded: "py_int (replicate a 32 @ str_int n @ replicate b 32) = Inr n"
proof -
  have s: "strip_by int_space (replicate a 32 @ str_int n @ replicate b 32) = str_int n"
    using strip_by_core[of int_space "replicate a 32" "replicate b 32" "str_int n"]
      str_int_nonempty str_int_hd[of n] str_int_last[of n] int_char_not_space
    by (auto simp: list_all_iff int_space_def)
  have "strip_by int_space (str_int n) = str_int n"
    using strip_by_core[of int_space "[]" "[]" "str_int n"]
      str_int_nonempty str_int_hd[of n] str_int_last[of n] int_char_not_space by auto
  then show ?thesis using literal_str_int[of n] by (simp add: py_int_def s)
qed

lemma inner_text_nonempty: "inner_text n ms \<noteq> []"
  by (simp add: inner_text_def str_int_nonempty)

lemma inner_text_hd: "hd (inner_text n ms) = hd (str_int n)"
  by (simp add: inner_text_def str_int_nonempty)

lemma more_text_last: "last (more_text m) = last (str_int (snd (snd (snd m))))"
  by (cases m) (simp add: more_text_def str_int_nonempty)

lemma more_text_nonempty: "more_text m \<noteq> []"
  by (cases m) (simp add: more_text_def)

lemma inner_text_last: "int_char (last (inner_text n ms))"
proof (cases ms rule: rev_cases)
  case Nil
  then show ?thesis by (simp add: inner_text_def str_int_last)
next
  case (snoc ms' m)
  then show ?thesis
    by (simp add: inner_text_def more_text_nonempty more_text_last str_int_last)
qed

lemma strip_levels_text: "strip (levels_text a n ms b) = inner_text n ms"
proof -
  have sp: "list_all isspace (replicate k 32)" for k
    by (simp add: list_all_iff isspace_def int_space_def)
  have h: "\<not> isspace (hd (inner_text n ms))"
    using str_int_hd[of n] int_char_not_space(1) by (simp add: inner_text_hd)
  have l: "\<not> isspace (last (inner_text n ms))"
    using inner_text_last[of n ms] int_char_not_space(1) by simp
  show ?thesis
    unfolding strip_def levels_text_def
    by (rule strip_by_core[OF sp sp inner_text_nonempty h l])
qed

lemma replace1_id: "list_all (\<lambda>c. c \<noteq> old) s \<Longrightarrow> replace1 old new s = s"
  by (induction s) (auto simp: replace1_def)

lemma replace1_append: "replace1 old new (s @ t) = replace1 old new s @ replace1 old new t"
  by (simp add: replace1_def)

lemma replace1_str_int: "replace1 0xFF0C 44 (str_int n) = str_int n"
  using str_int_chars[of n] int_char_not_delim(2)
  by (intro replace1_id) (auto simp: list_all_iff)

lemma replace1_spaces: "replace1 0xFF0C 44 (replicate k 32) = replicate k 32"
  by (intro replace1_id) (auto simp: list_all_iff)

lemma replace1_Cons:
  "replace1 old new (c # s) = (if c = old then new else c) # replace1 old new s"
  by (simp add: replace1_def)

lemma replace1_Nil: "replace1 old new [] = []"
  by (simp add: replace1_def)

lemma replace1_more_text:
  assumes "fst (snd m) = 44 \<or> fst (snd m) = 0xFF0C"
  shows "replace1 0xFF0C 44 (more_text m) = more_text (ascii_delim m)"
proof -
  obtain b s a n where m: "m = (b, s, a, n)" by (cases m) auto
  have "(if s = 0xFF0C then 44 else s) = 44" using assms m by auto
  then show ?thesis
    by (simp add: m more_text_def ascii_delim_def replace1_append replace1_Cons
          replace1_str_int replace1_spaces)
qed

lemma replace1_concat_more:
  "delimiters_ok ms \<Longrightarrow>
   replace1 0xFF0C 44 (concat (map more_text ms)) = concat (map more_text (map ascii_delim ms))"
proof (induction ms)
  case Nil
  then show ?case by (simp add: replace1_Nil)
next
  case (Cons m ms)
  then have 1: "fst (snd m) = 44 \<or> fst (snd m) = 0xFF0C" and 2: "delimiters_ok ms"
    by (auto simp: delimiters_ok_def)
  show ?case using replace1_more_text[OF 1] Cons.IH[OF 2] by (simp add: replace1_append)
qed

lemma replace1_inner_text:
  "delimiters_ok ms \<Longrightarrow> replace1 0xFF0C 44 (inner_text n ms) = inner_text n (map ascii_delim ms)"
  by (simp add: inner_text_def replace1_append replace1_str_int replace1_concat_more)

lemma split_no_sep: "sep \<notin> set s \<Longrightarrow> split sep s = [s]"
  by (induction s) auto

lemma split_at_sep: "sep \<notin> set s \<Longrightarrow> split sep (s @ sep # t) = s # split sep t"
  by (induction s) auto

lemma str_int_no_comma: "44 \<notin> set (str_int n)"
  using str_int_chars[of n] int_char_not_delim(1) by (auto simp: list_all_iff)

lemma split_pieces:
  "44 \<notin> set cur \<Longrightarrow>
   split 44 (cur @ concat (map more_text (map ascii_delim ms))) = pieces cur ms"
proof (induction ms arbitrary: cur)
  case Nil
  then show ?case by (simp add: split_no_sep)
next
  case (Cons m ms)
  obtain b s a n where m: "m = (b, s, a, n)" by (cases m) auto
  have 1: "44 \<notin> set (cur @ replicate b 32)" using Cons.prems by auto
  have 2: "44 \<notin> set (replicate a 32 @ str_int n)" using str_int_no_comma by auto
  have "split 44 (cur @ concat (map more_text (map ascii_delim (m # ms))))
      = split 44 ((cur @ replicate b 32) @ 44 # ((replicate a 32 @ str_int n)
           @ concat (map more_text (map ascii_delim ms))))"
    by (simp add: m more_text_def ascii_delim_def)
  also have "\<dots> = (cur @ replicate b 32) # pieces (replicate a 32 @ str_int n) ms"
    using split_at_sep[OF 1] Cons.IH[OF 2] by simp
  finally show ?case by (simp add: m)
qed

lemma int_list_pieces:
  "int_list (pieces (replicate a 32 @ str_int n) ms) = Inr (map PInt (levels n ms))"
proof (induction ms arbitrary: a n)
  case Nil
  then show ?case using py_int_padded[of a n 0] by (simp add: levels_def)
next
  case (Cons m ms)
  obtain b s a' n' where m: "m = (b, s, a', n')" by (cases m) auto
  show ?case using py_int_padded[of a n b] Cons.IH[of a' n'] by (simp add: m levels_def)
qed

lemma levels_of_levels_text:
  assumes "delimiters_ok ms"
  shows "levels_of (PStr (levels_text a n ms b)) = Inr (PList (map PInt (levels n ms)))"
proof -
  have "replace1 0xFF0C 44 (strip (levels_text a n ms b)) = inner_text n (map ascii_delim ms)"
    by (simp only: strip_levels_text replace1_inner_text[OF assms])
  also have "split 44 \<dots> = pieces (replicate 0 32 @ str_int n) ms"
    unfolding inner_text_def using split_pieces[OF str_int_no_comma, of n ms] by simp
  finally have "int_list (split 44 (replace1 0xFF0C 44 (strip (levels_text a n ms b))))
      = Inr (map PInt (levels n ms))"
    by (simp only: int_list_pieces)
  then show ?thesis by simp
qed

subsection \<open>Dictionaries\<close>

lemma dict_set_new: "k \<notin> fst ` set d \<Longrightarrow> dict_set d k v = d @ [(k, v)]"
  by (induction d) (auto simp: dict_set_def)

lemma openai_key_loop_entries:
  assumes "list_all entry_ok xs" "distinct (map fst acc @ map fst xs)"
  shows "openai_key_loop (map entry_item xs) acc = Inr (acc @ map entry_parsed xs)"
  using assms
proof (induction xs arbitrary: acc)
  case Nil
  then show ?case by simp
next
  case (Cons x xs)
  obtain k a n ms b where x: "x = (k, a, n, ms, b)" by (cases x) auto
  have okx: "entry_ok x" and oks: "list_all entry_ok xs"
    using Cons.prems(1) by simp_all
  have ok: "delimiters_ok ms" using okx by (simp add: x entry_ok_def)
  have new: "k \<notin> fst ` set acc" using Cons.prems(2) by (auto simp: x)
  have d: "distinct (map fst (acc @ [(k, PList (map PInt (levels n ms)))]) @ map fst xs)"
    using Cons.prems(2) by (auto simp: x)
  have "openai_key_loop (map entry_item (x # xs)) acc
      = openai_key_loop (map entry_item xs) (acc @ [(k, PList (map PInt (levels n ms)))])"
    by (simp add: x entry_item_def levels_of_levels_text[OF ok] dict_set_new[OF new]
          del: levels_of.simps)
  also have "\<dots> = Inr ((acc @ [(k, PList (map PInt (levels n ms)))]) @ map entry_parsed xs)"
    by (rule Cons.IH[OF oks d])
  finally show ?case by (simp add: x entry_parsed_def)
qed

subsection \<open>The projection written out\<close>

lemma Config_convert_to_env_eq:
  "Config_convert_to_env c set_env environ =
     (case openai_key_loop (openai_key (api_key c)) [] of
        Inl e \<Rightarrow> Inl e
      | Inr d \<Rightarrow> Inr (env_list c d, set_env_update set_env environ (env_list c d)))"
  by (simp add: Config_convert_to_env_def ApiKey_convert_to_env_def CacheConfig_convert_to_env_def
     RateLimit_convert_to_env_def Log_convert_to_env_def dict_update_def dict_set_def env_list_def Let_def
     split: sum.splits)

lemma map_fst_env_list:
  "map fst (env_list c d) = documented_keys @ (if proxy c \<noteq> [] then [''PROXY''] else [])"
  by (simp add: env_list_def documented_keys_def)

lemma openai_key_loop_str_key:
  "openai_key_loop (openai_key (api_key Config_str_key)) [] = Inr [(KStr (u ''sk-xx1''), PList [PInt 0])]"
  using openai_key_loop_entries[of "[(KStr (u ''sk-xx1''), 0, 0, [], 0)]" "[]"]
  by (simp add: Config_str_key_def entry_ok_def delimiters_ok_def entry_item_def entry_parsed_def
        levels_text_def inner_text_def levels_def str_int_def dec_nat.simps u_def dict_set_def)

lemma openai_key_loop_custom:
  "openai_key_loop (openai_key (api_key Config_custom)) []
     = Inr [(KStr (u ''sk-a''), PList [PInt 1, PInt 2, PInt 3])]"
  using openai_key_loop_entries[of "[sk_a_entry]" "[]"]
  by (simp add: Config_custom_def sk_a_entry_def entry_ok_def delimiters_ok_def entry_parsed_def
        levels_def)


subsection \<open>The dictionary of kept rate-limit rules\<close>

lemma map_of_dict_set: "map_of (dict_set d k v) = (map_of d)(k \<mapsto> v)"
  by (simp add: dict_set_def update_conv')

lemma distinct_dict_set: "distinct (map fst d) \<Longrightarrow> distinct (map fst (dict_set d k v))"
  by (simp add: dict_set_def distinct_update)

lemma map_of_fold_dict_set:
  "map_of (fold (\<lambda>i d. dict_set d (rlt_route i) (rlt_value i)) (filter kept rules) d0) k
     = (case last_kept rules k of Some v \<Rightarrow> Some v | None \<Rightarrow> map_of d0 k)"
proof (induction rules arbitrary: d0)
  case Nil
  then show ?case by simp
next
  case (Cons r rs)
  show ?case
    by (cases "kept r") (auto simp: Cons.IH map_of_dict_set split: option.splits)
qed

lemma map_of_rate_limit_dict: "map_of (rate_limit_dict rules) k = last_kept rules k"
proof -
  have "(\<lambda>i. rlt_route i \<noteq> [] \<and> rlt_value i \<noteq> []) = kept" by (auto simp: kept_def)
  then show ?thesis
    using map_of_fold_dict_set[of rules "[]" k] by (simp add: rate_limit_dict_def split: option.splits)
qed

lemma distinct_fold_dict_set:
  "distinct (map fst d0) \<Longrightarrow> distinct (map fst (fold (\<lambda>i d. dict_set d (f i) (g i)) xs d0))"
  by (induction xs arbitrary: d0) (auto simp: distinct_dict_set)

lemma distinct_rate_limit_dict: "distinct (map fst (rate_limit_dict rules))"
  by (simp add: rate_limit_dict_def distinct_fold_dict_set)

lemma last_kept_Some:
  "last_kept rules k = Some v \<Longrightarrow> \<exists>r\<in>set rules. kept r \<and> rlt_route r = k \<and> rlt_value r = v"
  by (induction rules) (auto split: option.splits if_splits)

lemma last_kept_kept: "r \<in> set rules \<Longrightarrow> kept r \<Longrightarrow> last_kept rules (rlt_route r) \<noteq> None"
  by (induction rules) (auto split: option.splits)

lemma last_kept_distinct:
  "distinct (map rlt_route rules) \<Longrightarrow> r \<in> set rules \<Longrightarrow> kept r \<Longrightarrow>
   last_kept rules (rlt_route r) = Some (rlt_value r)"
proof (induction rules)
  case Nil
  then show ?case by simp
next
  case (Cons x xs)
  show ?case
  proof (cases "r = x")
    case True
    have "last_kept xs (rlt_route x) = None"
    proof (rule ccontr)
      assume "last_kept xs (rlt_route x) \<noteq> None"
      then obtain v where "last_kept xs (rlt_route x) = Some v" by auto
      then obtain y where "y \<in> set xs" "rlt_route y = rlt_route x" using last_kept_Some by blast
      then have "rlt_route x \<in> rlt_route ` set xs" by (metis imageI)
      then show False using Cons.prems(1) by simp
    qed
    then show ?thesis using True Cons.prems by simp
  next
    case False
    then have "last_kept xs (rlt_route r) = Some (rlt_value r)" using Cons by auto
    then show ?thesis by simp
  qed
qed

lemma RateLimit_env:
  "map_of (fst (RateLimit_convert_to_env rl set_env environ)) ''TOKEN_RATE_LIMIT''
     = Some (json_dumps (rate_limit_py (rate_limit_dict (token_rate_limit rl))))"
  "map_of (fst (RateLimit_convert_to_env rl set_env environ)) ''REQ_RATE_LIMIT''
     = Some (json_dumps (rate_limit_py (rate_limit_dict (req_rate_limit rl))))"
  by (simp_all add: RateLimit_convert_to_env_def Let_def)

lemma rate_limit_dict_same_route:
  "rate_limit_dict rules_same_route = [(u ''/a'', [level_limit 0 ''2/second''])]"
  by (simp add: rate_limit_dict_def rules_same_route_def dict_set_def u_def)

lemma rate_limit_dict_some_empty:
  "rate_limit_dict rules_some_empty = [(u ''/b'', [level_limit 0 ''2/second''])]"
  by (simp add: rate_limit_dict_def rules_some_empty_def dict_set_def u_def)


subsection \<open>The events of \<open>convert\<close>\<close>

lemma folder_calls_append: "folder_calls (xs @ ys) = folder_calls xs @ folder_calls ys"
  by (induction xs rule: folder_calls.induct) auto

lemma folder_calls_prefixes:
  "folder_calls (concat (map convert_prefix ps))
     = map (\<lambda>p. (u ''./Log/'' @ p @ u ''/chat'', Some (u ''./Log/chat_'' @ p @ u ''.json''))) ps"
  by (induction ps) (auto simp: folder_calls_append convert_prefix_def Let_def)


subsection \<open>Processes and time\<close>

lemma exit_at_same:
  "exit_at (procs w p) = Some x \<Longrightarrow> (procs w)(p := (procs w p)\<lparr>exit_at := Some x\<rparr>) = procs w"
  by (auto simp: fun_eq_iff)

lemma interrupt_wait_kill_turn:
  assumes "platform_system w \<noteq> ''Windows''" "live w p"
  shows "interrupt_wait_kill p g w = (None, turn True p g w)"
proof (cases "reaction w p")
  case None
  show ?thesis
    using assms None
    by (auto simp: interrupt_wait_kill_def send_sigint_def wait_def kill_def exits_by_def elapse_def
          turn_def turn_end_def turn_exit_def due_after_interrupt_def earliest_def live_def Let_def
          min_def exit_at_same split: option.splits)
next
  case (Some d)
  show ?thesis
    using assms Some
    by (auto simp: interrupt_wait_kill_def send_sigint_def wait_def kill_def exits_by_def elapse_def
          turn_def turn_end_def turn_exit_def due_after_interrupt_def earliest_def live_def Let_def
          min_def exit_at_same split: option.splits)
qed

lemma platform_turn: "platform_system (turn flag p g w) = platform_system w"
  by (simp add: turn_def)

lemma Cli_stop_turns:
  assumes "uvicorn \<longrightarrow> uvicorn_proc self = Some pu" "streamlit \<longrightarrow> streamlit_proc self = Some ps"
    and "platform_system w \<noteq> ''Windows''"
  shows "Cli_stop self uvicorn streamlit w = (None, turn streamlit ps 5 (turn uvicorn pu 15 w))"
proof -
  let ?w1 = "turn uvicorn pu 15 w"
  have p1: "platform_system ?w1 \<noteq> ''Windows''" using assms(3) by (simp add: platform_turn)
  have a: "(if uvicorn then
              (case uvicorn_proc self of
                 None \<Rightarrow> (Some AttributeError, w)
               | Some p \<Rightarrow> if live w p then interrupt_wait_kill p 15 w else (None, w))
            else (None, w)) = (None, ?w1)"
    using assms(1) interrupt_wait_kill_turn[OF assms(3), of pu 15]
    by (auto simp: turn_def)
  have b: "(if streamlit then
             (case streamlit_proc self of
                None \<Rightarrow> (Some AttributeError, ?w1)
              | Some p \<Rightarrow> if live ?w1 p then interrupt_wait_kill p 5 ?w1 else (None, ?w1))
           else (None, ?w1)) = (None, turn streamlit ps 5 ?w1)"
    using assms(2) interrupt_wait_kill_turn[OF p1, of ps 5]
    by (auto simp: turn_def)
  show ?thesis unfolding Cli_stop_def a using b by simp
qed












section \<open>The claims\<close>

subsection \<open>Projection\<close>

text \<open>
  Claim C2. Projection never raises for a well-typed configuration; it raises exactly
  when a level string of a provider key is not numeric after splitting. The code does
  not keep the first part: the default configuration of the class itself, \<open>Config()\<close>
  when the module has been imported, holds the levels of its provider key as the list
  \<open>[0]\<close>, \<open>convert_to_env\<close> calls \<open>strip\<close> on it and raises \<open>AttributeError\<close>, and so does
  \<open>gen_config\<close>, which projects the default configuration.
\<close>

theorem default_projection_raises:
  "Config_convert_to_env (attrs store_initial Config_init) set_env environ = Inl AttributeError
   \<and> Cli_gen_config dir store_initial environ = Inl AttributeError"
  by (simp add: Cli_gen_config_def Config_convert_to_env_eq attrs_def store_initial_def
        Config_init_def ApiKey_default_def)



text \<open>
  Claim C5. For every configuration the keys of the projected mapping are the
  documented keys, and \<open>PROXY\<close> exactly when the proxy is not empty. Not every
  configuration has a projected mapping: a provider key whose level string is not
  numeric makes projection raise \<open>ValueError\<close>, as the specification demands, and no
  mapping is returned. Neither is one returned for \<open>Config()\<close> when the module has been
  imported, for which projection raises \<open>AttributeError\<close>.
\<close>

theorem projection_no_mapping_counterexample:
  "openai_key (api_key Config_bad_level) = [(KStr (u ''sk-a''), PStr (u ''abc''))]
   \<and> Config_convert_to_env Config_bad_level False [] = Inl ValueError
   \<and> Config_convert_to_env (attrs store_initial Config_init) False [] = Inl AttributeError"
proof -
  have 1: "openai_key (api_key Config_bad_level) = [(KStr (u ''sk-a''), PStr (u ''abc''))]"
    by (simp add: Config_bad_level_def)
  have "py_int (u ''abc'') = Inl ValueError"
    by (simp add: py_int_def strip_by_def int_space_def uni_space_def literal_val_def is_digit_def
          u_def)
  moreover have "split 44 (replace1 0xFF0C 44 (strip (u ''abc''))) = [u ''abc'']"
    by (simp add: strip_def strip_by_def isspace_def int_space_def uni_space_def replace1_def u_def)
  ultimately have "levels_of (PStr (u ''abc'')) = Inl ValueError" by simp
  then have 2: "Config_convert_to_env Config_bad_level False [] = Inl ValueError"
    by (simp add: Config_convert_to_env_eq 1)
  have 3: "Config_convert_to_env (attrs store_initial Config_init) False [] = Inl AttributeError"
    by (simp add: Config_convert_to_env_eq attrs_def store_initial_def Config_init_def
          ApiKey_default_def)
  show ?thesis using 1 2 3 by simp
qed

text \<open>
  Claim C5 as amended. Whenever projection returns a mapping, the keys of the mapping
  are the documented keys, each once, and \<open>PROXY\<close> exactly when the proxy is not empty;
  its value is then the proxy, so it is never the empty string.
\<close>

theorem projection_key_set:
  assumes "Config_convert_to_env c set_env environ = Inr (env, environ')"
  shows "set (map fst env) = set documented_keys \<union> (if proxy c \<noteq> [] then {''PROXY''} else {})
       \<and> distinct (map fst env)
       \<and> (''PROXY'' \<in> set (map fst env) \<longleftrightarrow> proxy c \<noteq> [])
       \<and> map_of env ''PROXY'' = (if proxy c \<noteq> [] then Some (proxy c) else None)"
proof -
  obtain d where env: "env = env_list c d"
    using assms by (auto simp: Config_convert_to_env_eq split: sum.splits)
  have k: "map fst env = documented_keys @ (if proxy c \<noteq> [] then [''PROXY''] else [])"
    by (simp add: env map_fst_env_list)
  have 1: "set (map fst env) = set documented_keys \<union> (if proxy c \<noteq> [] then {''PROXY''} else {})"
    by (simp add: k)
  have 2: "distinct (map fst env)"
    by (simp add: k) (simp add: documented_keys_def)
  have 3: "''PROXY'' \<in> set (map fst env) \<longleftrightarrow> proxy c \<noteq> []"
    by (simp add: k) (simp add: documented_keys_def)
  have 4: "map_of env ''PROXY'' = (if proxy c \<noteq> [] then Some (proxy c) else None)"
    by (simp add: env env_list_def)
  show ?thesis using 1 2 3 4 by blast
qed

theorem projection_key_set_witness:
  "Config_convert_to_env Config_custom False [] =
     Inr (env_list Config_custom [(KStr (u ''sk-a''), PList [PInt 1, PInt 2, PInt 3])], [])
   \<and> proxy Config_custom = u ''http://127.0.0.1:7890''
   \<and> set (map fst (env_list Config_custom [(KStr (u ''sk-a''), PList [PInt 1, PInt 2, PInt 3])]))
       = set documented_keys \<union> {''PROXY''}
   \<and> distinct (map fst (env_list Config_custom [(KStr (u ''sk-a''), PList [PInt 1, PInt 2, PInt 3])]))
   \<and> map_of (env_list Config_custom [(KStr (u ''sk-a''), PList [PInt 1, PInt 2, PInt 3])]) ''PROXY''
       = Some (u ''http://127.0.0.1:7890'')
   \<and> ''PROXY'' \<notin> set documented_keys"
proof -
  have h: "Config_convert_to_env Config_custom False [] =
     Inr (env_list Config_custom [(KStr (u ''sk-a''), PList [PInt 1, PInt 2, PInt 3])], [])"
    by (simp add: Config_convert_to_env_eq openai_key_loop_custom set_env_update_def)
  have p: "proxy Config_custom = u ''http://127.0.0.1:7890''" by (simp add: Config_custom_def)
  have ne: "proxy Config_custom \<noteq> []" by (simp add: p u_def)
  have d: "''PROXY'' \<notin> set documented_keys" by (simp add: documented_keys_def)
  show ?thesis using projection_key_set[OF h] h p ne d by simp
qed

text \<open>
  Claim C4. A rate-limit rule with an empty route or empty limits is absent from the
  projected token and request rate-limit mappings, and every rule with a route and
  limits appears there. The second part fails when two kept rules have the same
  route: the projected dictionary has one entry for the route, with the limits of the
  last of them, and the earlier rule is not in it.
\<close>

theorem rate_limit_filtering_counterexample:
  "\<lparr>rlt_route = u ''/a'', rlt_value = [level_limit 0 ''1/second'']\<rparr> \<in> set rules_same_route
   \<and> u ''/a'' \<noteq> [] \<and> [level_limit 0 ''1/second''] \<noteq> []
   \<and> rate_limit_dict rules_same_route = [(u ''/a'', [level_limit 0 ''2/second''])]
   \<and> (u ''/a'', [level_limit 0 ''1/second'']) \<notin> set (rate_limit_dict rules_same_route)
   \<and> map_of (fst (RateLimit_convert_to_env
          (RateLimit_default\<lparr>token_rate_limit := rules_same_route\<rparr>) False [])) ''TOKEN_RATE_LIMIT''
       = Some (json_dumps (rate_limit_py [(u ''/a'', [level_limit 0 ''2/second''])]))"
proof -
  have 1: "\<lparr>rlt_route = u ''/a'', rlt_value = [level_limit 0 ''1/second'']\<rparr> \<in> set rules_same_route"
    by (simp add: rules_same_route_def)
  have 2: "u ''/a'' \<noteq> []" by (simp add: u_def)
  have 3: "(u ''/a'', [level_limit 0 ''1/second'']) \<notin> set (rate_limit_dict rules_same_route)"
    by (simp add: rate_limit_dict_same_route) (simp add: level_limit_def u_def)
  have 4: "map_of (fst (RateLimit_convert_to_env
          (RateLimit_default\<lparr>token_rate_limit := rules_same_route\<rparr>) False [])) ''TOKEN_RATE_LIMIT''
       = Some (json_dumps (rate_limit_py [(u ''/a'', [level_limit 0 ''2/second''])]))"
    by (simp add: RateLimit_env(1) rate_limit_dict_same_route)
  show ?thesis using 1 2 3 4 rate_limit_dict_same_route by simp
qed

text \<open>
  Claim C4 as amended. \<open>TOKEN_RATE_LIMIT\<close> and \<open>REQ_RATE_LIMIT\<close> hold the JSON text of the
  dictionary of the kept rules. Every entry of that dictionary has a route and limits
  that are not empty and is a rule of the list, so a rule with an empty route or empty
  limits contributes no entry (the list of the model is an argument of the projection
  and is not changed by it). The route of every rule with a route and limits is a key,
  with the limits of the last such rule for that route; when the routes of the list
  are distinct, every such rule is an entry with its own limits.
\<close>

theorem rate_limit_filtering:
  assumes "(rules, key) = (token_rate_limit rl, ''TOKEN_RATE_LIMIT'')
         \<or> (rules, key) = (req_rate_limit rl, ''REQ_RATE_LIMIT'')"
  shows "map_of (fst (RateLimit_convert_to_env rl set_env environ)) key
           = Some (json_dumps (rate_limit_py (rate_limit_dict rules)))
       \<and> (\<forall>k v. (k, v) \<in> set (rate_limit_dict rules) \<longrightarrow>
             k \<noteq> [] \<and> v \<noteq> [] \<and> (\<exists>r\<in>set rules. rlt_route r = k \<and> rlt_value r = v))
       \<and> (\<forall>r\<in>set rules. rlt_route r \<noteq> [] \<and> rlt_value r \<noteq> [] \<longrightarrow>
             (\<exists>v. (rlt_route r, v) \<in> set (rate_limit_dict rules)
                \<and> last_kept rules (rlt_route r) = Some v))
       \<and> (distinct (map rlt_route rules) \<longrightarrow>
             (\<forall>r\<in>set rules. rlt_route r \<noteq> [] \<and> rlt_value r \<noteq> [] \<longrightarrow>
                (rlt_route r, rlt_value r) \<in> set (rate_limit_dict rules)))"
proof -
  have 1: "map_of (fst (RateLimit_convert_to_env rl set_env environ)) key
           = Some (json_dumps (rate_limit_py (rate_limit_dict rules)))"
    using assms RateLimit_env by auto
  have 2: "k \<noteq> [] \<and> v \<noteq> [] \<and> (\<exists>r\<in>set rules. rlt_route r = k \<and> rlt_value r = v)"
    if "(k, v) \<in> set (rate_limit_dict rules)" for k v
  proof -
    have "map_of (rate_limit_dict rules) k = Some v"
      using that distinct_rate_limit_dict by simp
    then have "last_kept rules k = Some v" by (simp add: map_of_rate_limit_dict)
    then show ?thesis using last_kept_Some[of rules k v] by (auto simp: kept_def)
  qed
  have 3: "\<exists>v. (rlt_route r, v) \<in> set (rate_limit_dict rules) \<and> last_kept rules (rlt_route r) = Some v"
    if a: "r \<in> set rules" and b: "rlt_route r \<noteq> [] \<and> rlt_value r \<noteq> []" for r
  proof -
    obtain v where v: "last_kept rules (rlt_route r) = Some v"
      using last_kept_kept[OF a] b by (auto simp: kept_def)
    then have "map_of (rate_limit_dict rules) (rlt_route r) = Some v"
      by (simp add: map_of_rate_limit_dict)
    then show ?thesis using v map_of_SomeD by fast
  qed
  have 4: "(rlt_route r, rlt_value r) \<in> set (rate_limit_dict rules)"
    if "distinct (map rlt_route rules)" and "r \<in> set rules" and "rlt_route r \<noteq> [] \<and> rlt_value r \<noteq> []" for r
  proof -
    have "last_kept rules (rlt_route r) = Some (rlt_value r)"
      using last_kept_distinct[OF that(1,2)] that(3) by (simp add: kept_def)
    then have "map_of (rate_limit_dict rules) (rlt_route r) = Some (rlt_value r)"
      by (simp add: map_of_rate_limit_dict)
    then show ?thesis using map_of_SomeD by fast
  qed
  show ?thesis using 1 2 3 4 by blast
qed

theorem rate_limit_filtering_witness:
  "map_of (fst (RateLimit_convert_to_env (RateLimit_default\<lparr>token_rate_limit := rules_some_empty\<rparr>) False []))
      ''TOKEN_RATE_LIMIT''
     = Some (json_dumps (rate_limit_py [(u ''/b'', [level_limit 0 ''2/second''])]))
   \<and> rate_limit_dict rules_some_empty = [(u ''/b'', [level_limit 0 ''2/second''])]
   \<and> distinct (map rlt_route rules_some_empty)
   \<and> last_kept rules_some_empty (u ''/b'') = Some [level_limit 0 ''2/second'']"
proof -
  let ?rl = "RateLimit_default\<lparr>token_rate_limit := rules_some_empty\<rparr>"
  have h: "(rules_some_empty, ''TOKEN_RATE_LIMIT'') = (token_rate_limit ?rl, ''TOKEN_RATE_LIMIT'')
         \<or> (rules_some_empty, ''TOKEN_RATE_LIMIT'') = (req_rate_limit ?rl, ''REQ_RATE_LIMIT'')"
    by simp
  note t = rate_limit_filtering[OF h, of False "[]"]
  have 1: "map_of (fst (RateLimit_convert_to_env ?rl False [])) ''TOKEN_RATE_LIMIT''
     = Some (json_dumps (rate_limit_py [(u ''/b'', [level_limit 0 ''2/second''])]))"
    using t by (simp add: rate_limit_dict_some_empty)
  have d: "distinct (map rlt_route rules_some_empty)"
    by (simp add: rules_some_empty_def u_def)
  let ?r = "\<lparr>rlt_route = u ''/b'', rlt_value = [level_limit 0 ''2/second'']\<rparr>"
  have r: "?r \<in> set rules_some_empty" "rlt_route ?r \<noteq> [] \<and> rlt_value ?r \<noteq> []"
    by (simp_all add: rules_some_empty_def u_def)
  have "\<exists>v. (rlt_route ?r, v) \<in> set (rate_limit_dict rules_some_empty)
           \<and> last_kept rules_some_empty (rlt_route ?r) = Some v"
    using t r by blast
  then have 2: "last_kept rules_some_empty (u ''/b'') = Some [level_limit 0 ''2/second'']"
    by (simp add: rate_limit_dict_some_empty)
  show ?thesis using 1 2 d rate_limit_dict_some_empty by blast
qed


subsection \<open>The supervisor and the command line\<close>

text \<open>
  Claim C6. When the forwarder started for a port does not report healthy at
  \<open>http://localhost:{port}/healthz\<close> within the timeout of 10, the start raises the fatal
  startup error and the supervisor is \<open>Failed\<close>, except on Windows, where the failure
  is suppressed and the supervisor is \<open>Running\<close>. In both cases the wait has taken the
  10 time units and the handle is the new process.
\<close>

theorem start_health_check:
  assumes "case healthy_in w (healthz_url port) of None \<Rightarrow> True | Some d \<Rightarrow> 10 < d"
  shows "(platform_system w \<noteq> ''Windows'' \<longrightarrow>
            fst (Cli_start_uvicorn self port workers keyfile certfile w) = Some StartupError
            \<and> state_after_start (fst (Cli_start_uvicorn self port workers keyfile certfile w)) = Failed)
       \<and> (platform_system w = ''Windows'' \<longrightarrow>
            fst (Cli_start_uvicorn self port workers keyfile certfile w) = None
            \<and> state_after_start (fst (Cli_start_uvicorn self port workers keyfile certfile w)) = Running)
       \<and> now (snd (snd (Cli_start_uvicorn self port workers keyfile certfile w))) = now w + 10
       \<and> uvicorn_proc (fst (snd (Cli_start_uvicorn self port workers keyfile certfile w))) = Some (nprocs w)"
  using assms
  by (auto simp: Cli_start_uvicorn_def Popen_def wait_for_serve_start_def state_after_start_def
        elapse_def Let_def split: option.splits)

theorem start_health_check_witness:
  "(case healthy_in (world0 ''Linux'' []) (healthz_url 8000) of None \<Rightarrow> True | Some d \<Rightarrow> 10 < d)
   \<and> fst (Cli_start_uvicorn \<lparr>uvicorn_proc = None, streamlit_proc = None\<rparr> 8000 1 None None
            (world0 ''Linux'' [])) = Some StartupError
   \<and> (case healthy_in (world0 ''Windows'' []) (healthz_url 8000) of None \<Rightarrow> True | Some d \<Rightarrow> 10 < d)
   \<and> fst (Cli_start_uvicorn \<lparr>uvicorn_proc = None, streamlit_proc = None\<rparr> 8000 1 None None
            (world0 ''Windows'' [])) = None"
proof -
  have l: "case healthy_in (world0 ''Linux'' []) (healthz_url 8000) of None \<Rightarrow> True | Some d \<Rightarrow> 10 < d"
    by (simp add: world0_def)
  have w: "case healthy_in (world0 ''Windows'' []) (healthz_url 8000) of None \<Rightarrow> True | Some d \<Rightarrow> 10 < d"
    by (simp add: world0_def)
  have pl: "platform_system (world0 ''Linux'' []) \<noteq> ''Windows''" by (simp add: world0_def)
  have pw: "platform_system (world0 ''Windows'' []) = ''Windows''" by (simp add: world0_def)
  show ?thesis
    using start_health_check[OF l, of "\<lparr>uvicorn_proc = None, streamlit_proc = None\<rparr>" 1 None None]
          start_health_check[OF w, of "\<lparr>uvicorn_proc = None, streamlit_proc = None\<rparr>" 1 None None]
          l w pl pw by blast
qed

text \<open>
  Claim C7. A stop sends the interrupt, waits for the grace period (15 for the
  forwarder, 5 for the dashboard) and kills the process that has not exited, so that
  the handle is stopped no later than its grace period after the call. The bound
  fails in two ways. \<open>kill\<close> returns at once and \<open>_stop\<close> does not wait after it: a
  forwarder that ignores the interrupt is still live when \<open>_stop\<close>, called at time 0,
  returns at time 15. And the dashboard is interrupted only when the forwarder's turn
  is over: when both are stopped at time 0 and the forwarder uses up its 15 time
  units, a dashboard that exits 2 time units after its interrupt exits at time 17,
  not by time 5.
\<close>

theorem stop_grace_counterexample:
  "uvicorn_proc cli_running = Some 0 \<and> now (world_running ''Linux'') = 0
   \<and> live (world_running ''Linux'') 0
   \<and> fst (Cli_stop cli_running True False (world_running ''Linux'')) = None
   \<and> now (snd (Cli_stop cli_running True False (world_running ''Linux''))) = 15
   \<and> live (snd (Cli_stop cli_running True False (world_running ''Linux''))) 0
   \<and> streamlit_proc cli_two = Some 1 \<and> now world_two = 0 \<and> live world_two 1
   \<and> fst (Cli_stop cli_two True True world_two) = None
   \<and> exit_at (procs (snd (Cli_stop cli_two True True world_two)) 1) = Some 17
   \<and> \<not> (17 \<le> now world_two + (5::nat))"
  by (simp add: Cli_stop_def interrupt_wait_kill_def send_sigint_def wait_def kill_def exits_by_def
        elapse_def live_def cli_running_def cli_two_def world_running_def world_two_def world0_def)

text \<open>
  Claim C7 as amended. On a platform other than Windows and when every targeted handle
  exists, \<open>_stop\<close> raises nothing and takes the forwarder's turn first and the dashboard's
  turn after it, with the grace periods 15 and 5. A turn does nothing when its handle
  is not targeted or its process has already exited. Otherwise the process is
  interrupted when the turn begins; the turn ends when the process exits or when the
  grace period is over, whichever is first; \<open>kill\<close> is called exactly when the process
  has not exited by then, and the process is then gone \<open>kill_latency\<close> later at the
  latest, so it may be live when \<open>_stop\<close> returns. A process that reacts to the
  interrupt within the grace period exits at that moment, which ends the turn; one
  that ignores it is gone \<open>kill_latency\<close> after the grace period.
\<close>

theorem stop_graceful_then_forced:
  assumes "uvicorn \<longrightarrow> uvicorn_proc self = Some pu" "streamlit \<longrightarrow> streamlit_proc self = Some ps"
    and "platform_system w \<noteq> ''Windows''"
  shows "Cli_stop self uvicorn streamlit w = (None, turn streamlit ps 5 (turn uvicorn pu 15 w))
       \<and> turn_end w p g \<le> now w + g
       \<and> turn_exit w p g \<le> now w + g + kill_latency w p
       \<and> (\<not> killed w p g \<longrightarrow> turn_exit w p g = turn_end w p g)
       \<and> (killed w p g \<longrightarrow> turn_end w p g = now w + g)
       \<and> (reaction w p = Some d \<and> d \<le> g \<and> exit_at (procs w p) = None \<longrightarrow>
            turn_exit w p g = now w + d \<and> turn_end w p g = now w + d)
       \<and> (reaction w p = None \<and> exit_at (procs w p) = None \<longrightarrow>
            turn_exit w p g = now w + g + kill_latency w p)"
proof -
  have 1: "Cli_stop self uvicorn streamlit w = (None, turn streamlit ps 5 (turn uvicorn pu 15 w))"
    by (rule Cli_stop_turns[OF assms])
  have 2: "turn_end w p g \<le> now w + g"
    by (simp add: turn_end_def split: option.splits)
  have 3: "turn_exit w p g \<le> now w + g + kill_latency w p"
    by (simp add: turn_exit_def split: option.splits)
  have 4: "\<not> killed w p g \<longrightarrow> turn_exit w p g = turn_end w p g"
    by (auto simp: turn_exit_def turn_end_def killed_def split: option.splits)
  have 5: "killed w p g \<longrightarrow> turn_end w p g = now w + g"
    by (auto simp: turn_end_def killed_def split: option.splits)
  have 6: "reaction w p = Some d \<and> d \<le> g \<and> exit_at (procs w p) = None \<longrightarrow>
            turn_exit w p g = now w + d \<and> turn_end w p g = now w + d"
    by (auto simp: turn_exit_def turn_end_def due_after_interrupt_def earliest_def)
  have 7: "reaction w p = None \<and> exit_at (procs w p) = None \<longrightarrow>
            turn_exit w p g = now w + g + kill_latency w p"
    by (auto simp: turn_exit_def due_after_interrupt_def earliest_def)
  show ?thesis using 1 2 3 4 5 6 7 by blast
qed

theorem stop_graceful_then_forced_witness:
  "uvicorn_proc cli_running = Some 0 \<and> streamlit_proc cli_running = None
   \<and> platform_system world_graceful = ''Linux'' \<and> now world_graceful = 0 \<and> live world_graceful 0
   \<and> Cli_stop cli_running True False world_graceful = (None, turn True 0 15 world_graceful)
   \<and> now (turn True 0 15 world_graceful) = 3
   \<and> exit_at (procs (turn True 0 15 world_graceful) 0) = Some 3
   \<and> Cli_stop cli_running True False (world_running ''Linux'')
        = (None, turn True 0 15 (world_running ''Linux''))
   \<and> now (turn True 0 15 (world_running ''Linux'')) = 15
   \<and> exit_at (procs (turn True 0 15 (world_running ''Linux'')) 0) = Some 16
   \<and> Cli_stop cli_two True True world_two = (None, turn True 1 5 (turn True 0 15 world_two))
   \<and> now (turn True 1 5 (turn True 0 15 world_two)) = 17
   \<and> exit_at (procs (turn True 1 5 (turn True 0 15 world_two)) 0) = Some 16
   \<and> exit_at (procs (turn True 1 5 (turn True 0 15 world_two)) 1) = Some 17"
proof -
  have a: "True \<longrightarrow> uvicorn_proc cli_running = Some 0" "False \<longrightarrow> streamlit_proc cli_running = Some 0"
    by (simp_all add: cli_running_def)
  have b: "True \<longrightarrow> uvicorn_proc cli_two = Some 0" "True \<longrightarrow> streamlit_proc cli_two = Some 1"
    by (simp_all add: cli_two_def)
  have g: "platform_system world_graceful \<noteq> ''Windows''"
    by (simp add: world_graceful_def world_running_def world0_def)
  have r: "platform_system (world_running ''Linux'') \<noteq> ''Windows''"
    by (simp add: world_running_def world0_def)
  have t: "platform_system world_two \<noteq> ''Windows''"
    by (simp add: world_two_def world0_def)
  have 1: "Cli_stop cli_running True False world_graceful = (None, turn True 0 15 world_graceful)"
    using stop_graceful_then_forced[OF a g, of 0 0 0] by (simp add: turn_def)
  have 2: "Cli_stop cli_running True False (world_running ''Linux'')
        = (None, turn True 0 15 (world_running ''Linux''))"
    using stop_graceful_then_forced[OF a r, of 0 0 0] by (simp add: turn_def)
  have 3: "Cli_stop cli_two True True world_two = (None, turn True 1 5 (turn True 0 15 world_two))"
    using stop_graceful_then_forced[OF b t, of 0 0 0] by simp
  have 4: "now (turn True 0 15 world_graceful) = 3
         \<and> exit_at (procs (turn True 0 15 world_graceful) 0) = Some 3"
    by (simp add: turn_def turn_end_def turn_exit_def due_after_interrupt_def earliest_def live_def
          world_graceful_def world_running_def world0_def)
  have 5: "now (turn True 0 15 (world_running ''Linux'')) = 15
         \<and> exit_at (procs (turn True 0 15 (world_running ''Linux'')) 0) = Some 16"
    by (simp add: turn_def turn_end_def turn_exit_def due_after_interrupt_def earliest_def live_def
          world_running_def world0_def)
  have 6: "now (turn True 1 5 (turn True 0 15 world_two)) = 17
         \<and> exit_at (procs (turn True 1 5 (turn True 0 15 world_two)) 0) = Some 16
         \<and> exit_at (procs (turn True 1 5 (turn True 0 15 world_two)) 1) = Some 17"
    by (simp add: turn_def turn_end_def turn_exit_def due_after_interrupt_def earliest_def live_def
          world_two_def world0_def)
  have 7: "uvicorn_proc cli_running = Some 0 \<and> streamlit_proc cli_running = None
       \<and> platform_system world_graceful = ''Linux'' \<and> now world_graceful = 0 \<and> live world_graceful 0"
    by (simp add: cli_running_def world_graceful_def world_running_def world0_def live_def)
  show ?thesis using 1 2 3 4 5 6 7 by simp
qed





text \<open>
  Claim C9. \<open>convert\<close> without a log folder but with a target path raises the usage
  error (a \<open>ValueError\<close>) after printing one line, before any call of
  \<open>convert_folder_to_jsonl\<close>; without both it raises nothing and converts the default
  log folder of every configured route prefix, in order.
\<close>

theorem convert_usage:
  "Cli_convert prefixes to_str None (Some target) = (Some ValueError, [Print dashes])
   \<and> folder_calls (snd (Cli_convert prefixes to_str None (Some target))) = []
   \<and> fst (Cli_convert prefixes to_str None None) = None
   \<and> folder_calls (snd (Cli_convert prefixes to_str None None))
       = map (\<lambda>p. (u ''./Log/'' @ to_str p @ u ''/chat'',
                     Some (u ''./Log/chat_'' @ to_str p @ u ''.json''))) prefixes"
  using folder_calls_prefixes[of "map to_str prefixes"]
  by (simp add: Cli_convert_def comp_def)

text \<open>
  Claim C10. On Windows, \<open>run\<close> sets \<open>TZ\<close> in the process environment to the empty
  string before the server is launched, whatever it was; on any other platform the
  environment at the launch is the one \<open>run\<close> was called with.
\<close>

theorem run_timezone:
  "(platform_system w = ''Windows'' \<longrightarrow>
      map_of (os_environ (Cli_run port workers start_ui ui_port w)) ''TZ'' = Some []
      \<and> map_of (l_environ (last (launches (Cli_run port workers start_ui ui_port w)))) ''TZ'' = Some [])
   \<and> (platform_system w \<noteq> ''Windows'' \<longrightarrow>
      os_environ (Cli_run port workers start_ui ui_port w) = os_environ w
      \<and> l_environ (last (launches (Cli_run port workers start_ui ui_port w))) = os_environ w)"
  by (simp add: Cli_run_def Let_def dict_set_def update_conv')

theorem run_timezone_witness:
  "platform_system (world0 ''Windows'' [(''TZ'', u ''Asia/Shanghai'')]) = ''Windows''
   \<and> map_of (l_environ (last (launches
        (Cli_run 8000 1 True 8001 (world0 ''Windows'' [(''TZ'', u ''Asia/Shanghai'')]))))) ''TZ'' = Some []
   \<and> platform_system (world0 ''Linux'' [(''TZ'', u ''Asia/Shanghai'')]) \<noteq> ''Windows''
   \<and> map_of (l_environ (last (launches
        (Cli_run 8000 1 True 8001 (world0 ''Linux'' [(''TZ'', u ''Asia/Shanghai'')]))))) ''TZ''
       = Some (u ''Asia/Shanghai'')"
  using run_timezone[of "world0 ''Windows'' [(''TZ'', u ''Asia/Shanghai'')]" 8000 1 True 8001]
        run_timezone[of "world0 ''Linux'' [(''TZ'', u ''Asia/Shanghai'')]" 8000 1 True 8001]
  by (simp add: world0_def)

end
